theory Spec2Isabelle
  imports Main "HOL-Library.Sublist" "HOL-Library.Multiset"
begin

section \<open>Go library functions used by the webhook\<close>

subsection \<open>strconv\<close>

text \<open>
  Go strings are byte sequences; \<^typ>\<open>string\<close> is a list of bytes as well.
  The webhook only tests the error result of \<^verbatim>\<open>strconv.Atoi\<close> and
  \<^verbatim>\<open>strconv.ParseBool\<close> against \<^verbatim>\<open>nil\<close>, so an error is \<^term>\<open>None\<close>.
\<close>

text \<open>The width of Go's \<^verbatim>\<open>int\<close> on the 64-bit platforms the controller is built for.\<close>

definition intSize :: nat where
  "intSize = 64"

definition isDigit :: "char \<Rightarrow> bool" where
  "isDigit ch \<longleftrightarrow> of_char (CHR ''0'') \<le> (of_char ch :: nat) \<and> (of_char ch :: nat) \<le> of_char (CHR ''9'')"

definition digitVal :: "char \<Rightarrow> nat" where
  "digitVal ch = of_char ch - of_char (CHR ''0'')"

text \<open>The digit loop: \<^verbatim>\<open>n = n*10 + int(ch - '0')\<close>.\<close>

fun parseDigits :: "nat \<Rightarrow> string \<Rightarrow> nat" where
  "parseDigits n [] = n"
| "parseDigits n (ch # s) = parseDigits (n * 10 + digitVal ch) s"

text \<open>
  \<^verbatim>\<open>strconv.Atoi(s)\<close>, that is \<^verbatim>\<open>ParseInt(s, 10, 0)\<close>: an optional sign, then one or
  more decimal digits and nothing else (in base 10 no underscore is accepted), and the
  value has to lie in \<open>-2^(intSize-1) .. 2^(intSize-1) - 1\<close>.
\<close>

definition strconv_Atoi :: "string \<Rightarrow> int option" where
  "strconv_Atoi s0 =
     (if s0 = [] then None
      else
        let neg = (hd s0 = CHR ''-'');
            s = (if hd s0 = CHR ''+'' \<or> hd s0 = CHR ''-'' then tl s0 else s0)
        in if s = [] then None
           else if \<not> list_all isDigit s then None
           else
             let un = parseDigits 0 s;
                 cutoff = (2::nat) ^ (intSize - 1)
             in if \<not> neg \<and> un \<ge> cutoff then None
                else if neg \<and> un > cutoff then None
                else Some (if neg then - int un else int un))"

text \<open>\<^verbatim>\<open>strconv.ParseBool\<close>: a switch over twelve literals.\<close>

definition strconv_ParseBool :: "string \<Rightarrow> bool option" where
  "strconv_ParseBool str =
     (if str \<in> set [''1'', ''t'', ''T'', ''true'', ''TRUE'', ''True''] then Some True
      else if str \<in> set [''0'', ''f'', ''F'', ''false'', ''FALSE'', ''False''] then Some False
      else None)"

text \<open>\<^verbatim>\<open>strings.Join\<close>.\<close>

fun strings_Join :: "string list \<Rightarrow> string \<Rightarrow> string" where
  "strings_Join [] sep = []"
| "strings_Join [x] sep = x"
| "strings_Join (x # y # xs) sep = x @ sep @ strings_Join (y # xs) sep"

subsection \<open>k8s.io/apimachinery/pkg/util/validation/field\<close>

text \<open>
  A \<^verbatim>\<open>*field.Path\<close> built with \<^verbatim>\<open>NewPath\<close> and \<^verbatim>\<open>Child\<close> is the list of its
  element names, the root first; the empty list is the \<^verbatim>\<open>nil\<close> path.
\<close>

type_synonym Path = "string list"

definition NewPath :: "string \<Rightarrow> Path" where
  "NewPath name = [name]"

definition Child :: "Path \<Rightarrow> string \<Rightarrow> Path" where
  "Child p name = p @ [name]"

text \<open>
  \<^verbatim>\<open>Path.String\<close>: an element below the root with a name is written after a dot, an
  element with an empty name is written as its (here empty) index in brackets.
\<close>

fun Path_elems :: "bool \<Rightarrow> Path \<Rightarrow> string" where
  "Path_elems root [] = []"
| "Path_elems root (n # ns) =
     (if n = [] then ''[]'' else (if root then [] else ''.'') @ n) @ Path_elems False ns"

definition Path_String :: "Path \<Rightarrow> string" where
  "Path_String p = (if p = [] then ''<nil>'' else Path_elems True p)"

datatype ErrorType = ErrorTypeRequired | ErrorTypeInvalid | ErrorTypeNotSupported

fun ErrorType_String :: "ErrorType \<Rightarrow> string" where
  "ErrorType_String ErrorTypeRequired = ''Required value''"
| "ErrorType_String ErrorTypeInvalid = ''Invalid value''"
| "ErrorType_String ErrorTypeNotSupported = ''Unsupported value''"

text \<open>
  \<^verbatim>\<open>field.Error\<close>. Every bad value the webhook reports is a string (a target, an
  action or a parameter value). The field \<^verbatim>\<open>Field\<close> of the Go struct, the path as a
  string, is \<open>ErrField\<close> here.
\<close>

record field_Error =
  Type :: ErrorType
  ErrField :: string
  BadValue :: string
  Detail :: string

definition field_Invalid :: "Path \<Rightarrow> string \<Rightarrow> string \<Rightarrow> field_Error" where
  "field_Invalid p v detail =
     \<lparr>Type = ErrorTypeInvalid, ErrField = Path_String p, BadValue = v, Detail = detail\<rparr>"

definition field_Required :: "Path \<Rightarrow> string \<Rightarrow> field_Error" where
  "field_Required p detail =
     \<lparr>Type = ErrorTypeRequired, ErrField = Path_String p, BadValue = [], Detail = detail\<rparr>"

text \<open>
  \<^verbatim>\<open>field.NotSupported\<close> quotes every valid value with \<^verbatim>\<open>strconv.Quote\<close>, and
  \<^verbatim>\<open>Error.ErrorBody\<close> prints a bad value of a named string type Go-quoted as well.
  Go's quoting depends on the Unicode tables, so the quoting function is a parameter
  \<open>quote\<close> of the model; nothing is assumed about it.
\<close>

definition field_NotSupported :: "(string \<Rightarrow> string) \<Rightarrow> Path \<Rightarrow> string \<Rightarrow> string list \<Rightarrow> field_Error" where
  "field_NotSupported quote p v validValues =
     (let detail = (if length validValues > 0
                    then ''supported values: '' @ strings_Join (map quote validValues) '', ''
                    else [])
      in \<lparr>Type = ErrorTypeNotSupported, ErrField = Path_String p, BadValue = v, Detail = detail\<rparr>)"

definition ErrorBody :: "(string \<Rightarrow> string) \<Rightarrow> field_Error \<Rightarrow> string" where
  "ErrorBody quote e =
     (let s = (case Type e of
                 ErrorTypeRequired \<Rightarrow> ErrorType_String (Type e)
               | _ \<Rightarrow> ErrorType_String (Type e) @ '': '' @ quote (BadValue e))
      in if length (Detail e) \<noteq> 0 then s @ '': '' @ Detail e else s)"

definition Error_Error :: "(string \<Rightarrow> string) \<Rightarrow> field_Error \<Rightarrow> string" where
  "Error_Error quote e = ErrField e @ '': '' @ ErrorBody quote e"

section \<open>The data model of the webhook\<close>

text \<open>
  \<^verbatim>\<open>JVMChaosTarget\<close> and \<^verbatim>\<open>JVMChaosAction\<close> are string types: the webhook converts
  an action with \<^verbatim>\<open>string(act)\<close> and prints both with \<^verbatim>\<open>%s\<close>. A request may carry
  any string as its target and as its action.
\<close>

type_synonym JVMChaosTarget = string
type_synonym JVMChaosAction = string

text \<open>
  The object under validation: of \<^verbatim>\<open>JVMChaos\<close> the webhook reads
  \<^verbatim>\<open>in.Spec.Target\<close>, \<^verbatim>\<open>in.Spec.Action\<close>, \<^verbatim>\<open>in.Spec.Flags\<close> and
  \<^verbatim>\<open>in.Spec.Matchers\<close>. A Go map may be \<^verbatim>\<open>nil\<close>, which is \<^term>\<open>None\<close>.
\<close>

record JVMChaosSpec =
  Target :: JVMChaosTarget
  Action :: JVMChaosAction
  Flags :: "(string \<rightharpoonup> string) option"
  Matchers :: "(string \<rightharpoonup> string) option"

record JVMChaos =
  Spec :: JVMChaosSpec

type_synonym ParameterType = string

definition IntType :: ParameterType where
  "IntType = ''int''"

definition BoolType :: ParameterType where
  "BoolType = ''bool''"

definition StringType :: ParameterType where
  "StringType = ''string''"

text \<open>
  A composite literal that leaves \<^verbatim>\<open>ParameterType\<close> out has Go's zero value there,
  the empty string, and one that leaves \<^verbatim>\<open>Required\<close> out has \<^verbatim>\<open>false\<close>.
\<close>

record ParameterRules =
  Name :: string
  ParameterType :: ParameterType
  Required :: bool

text \<open>A rule list left out of the literal is the \<^verbatim>\<open>nil\<close> slice, \<^term>\<open>None\<close>.\<close>

record ActionParameterRules =
  Flags :: "ParameterRules list option"
  Matcher :: "ParameterRules list option"

text \<open>
  The constants of type \<^verbatim>\<open>JVMChaosTarget\<close> and \<^verbatim>\<open>JVMChaosAction\<close> are declared in
  another file of the package; their string values are parameters of the model.
\<close>

record JVMChaosConsts =
  SERVLET :: JVMChaosTarget
  PSQL :: JVMChaosTarget
  MYSQL :: JVMChaosTarget
  JEDIS :: JVMChaosTarget
  HTTP :: JVMChaosTarget
  ROCKETMQ :: JVMChaosTarget
  TARS :: JVMChaosTarget
  DUBBO :: JVMChaosTarget
  JVM :: JVMChaosTarget
  DRUID :: JVMChaosTarget
  JVMDelayAction :: JVMChaosAction
  JVMExceptionAction :: JVMChaosAction
  JVMThreadPoolFullAction :: JVMChaosAction
  JVMCodeCacheFillingAction :: JVMChaosAction
  JVMCpuFullloadAction :: JVMChaosAction
  JVMThrowDeclaredExceptionAction :: JVMChaosAction
  JVMReturnAction :: JVMChaosAction
  JVMScriptAction :: JVMChaosAction
  JVMOOMAction :: JVMChaosAction
  JVMConnectionPoolFullAction :: JVMChaosAction

text \<open>
  The Go compiler rejects a map literal with a repeated constant key, so the keys of
  the outer map and of every inner map of \<^verbatim>\<open>JvmSpec\<close> are pairwise different.
\<close>

definition keysDistinct :: "JVMChaosConsts \<Rightarrow> bool" where
  "keysDistinct c \<longleftrightarrow>
     distinct [SERVLET c, PSQL c, MYSQL c, JEDIS c, HTTP c, ROCKETMQ c, TARS c, DUBBO c,
               JVM c, DRUID c] \<and>
     distinct [JVMDelayAction c, JVMExceptionAction c, JVMThreadPoolFullAction c] \<and>
     distinct [JVMDelayAction c, JVMExceptionAction c, JVMCodeCacheFillingAction c,
               JVMCpuFullloadAction c, JVMThrowDeclaredExceptionAction c, JVMReturnAction c,
               JVMScriptAction c, JVMOOMAction c]"

text \<open>
  \<^verbatim>\<open>JvmSpec\<close>, in the order of the literal. A Go map is looked up by key
  (\<^term>\<open>map_of\<close>).
\<close>

definition JvmSpec :: "JVMChaosConsts \<Rightarrow> (JVMChaosTarget \<times> (JVMChaosAction \<times> ActionParameterRules) list) list" where
  "JvmSpec c = [
    (SERVLET c, [
      (JVMDelayAction c, \<lparr>
        Flags = Some [
          \<lparr>Name = ''time'', ParameterType = IntType, Required = True\<rparr>,
          \<lparr>Name = ''offset'', ParameterType = IntType, Required = False\<rparr>],
        Matcher = Some [
          \<lparr>Name = ''effect-count'', ParameterType = IntType, Required = False\<rparr>,
          \<lparr>Name = ''effect-percent'', ParameterType = IntType, Required = False\<rparr>,
          \<lparr>Name = ''method'', ParameterType = '''', Required = False\<rparr>,
          \<lparr>Name = ''querystring'', ParameterType = '''', Required = False\<rparr>,
          \<lparr>Name = ''requestpath'', ParameterType = '''', Required = False\<rparr>]\<rparr>),
      (JVMExceptionAction c, \<lparr>
        Flags = Some [
          \<lparr>Name = ''exception'', ParameterType = '''', Required = True\<rparr>,
          \<lparr>Name = ''exception-message'', ParameterType = '''', Required = False\<rparr>],
        Matcher = Some [
          \<lparr>Name = ''effect-count'', ParameterType = IntType, Required = False\<rparr>,
          \<lparr>Name = ''effect-percent'', ParameterType = IntType, Required = False\<rparr>,
          \<lparr>Name = ''method'', ParameterType = '''', Required = False\<rparr>,
          \<lparr>Name = ''querystring'', ParameterType = '''', Required = False\<rparr>,
          \<lparr>Name = ''requestpath'', ParameterType = '''', Required = False\<rparr>]\<rparr>)]),
    (PSQL c, [
      (JVMDelayAction c, \<lparr>
        Flags = Some [
          \<lparr>Name = ''time'', ParameterType = IntType, Required = True\<rparr>,
          \<lparr>Name = ''offset'', ParameterType = IntType, Required = False\<rparr>],
        Matcher = Some [
          \<lparr>Name = ''effect-count'', ParameterType = IntType, Required = False\<rparr>,
          \<lparr>Name = ''effect-percent'', ParameterType = IntType, Required = False\<rparr>,
          \<lparr>Name = ''sqltype'', ParameterType = '''', Required = False\<rparr>,
          \<lparr>Name = ''database'', ParameterType = '''', Required = False\<rparr>,
          \<lparr>Name = ''port'', ParameterType = IntType, Required = False\<rparr>,
          \<lparr>Name = ''host'', ParameterType = '''', Required = False\<rparr>,
          \<lparr>Name = ''table'', ParameterType = '''', Required = False\<rparr>]\<rparr>),
      (JVMExceptionAction c, \<lparr>
        Flags = Some [
          \<lparr>Name = ''exception'', ParameterType = '''', Required = True\<rparr>,
          \<lparr>Name = ''exception-message'', ParameterType = '''', Required = False\<rparr>],
        Matcher = Some [
          \<lparr>Name = ''effect-count'', ParameterType = IntType, Required = False\<rparr>,
          \<lparr>Name = ''effect-percent'', ParameterType = IntType, Required = False\<rparr>,
          \<lparr>Name = ''sqltype'', ParameterType = '''', Required = False\<rparr>,
          \<lparr>Name = ''database'', ParameterType = '''', Required = False\<rparr>,
          \<lparr>Name = ''port'', ParameterType = IntType, Required = False\<rparr>,
          \<lparr>Name = ''host'', ParameterType = '''', Required = False\<rparr>,
          \<lparr>Name = ''table'', ParameterType = '''', Required = False\<rparr>]\<rparr>)]),
    (MYSQL c, [
      (JVMDelayAction c, \<lparr>
        Flags = Some [
          \<lparr>Name = ''time'', ParameterType = IntType, Required = True\<rparr>,
          \<lparr>Name = ''offset'', ParameterType = IntType, Required = False\<rparr>],
        Matcher = Some [
          \<lparr>Name = ''effect-count'', ParameterType = IntType, Required = False\<rparr>,
          \<lparr>Name = ''effect-percent'', ParameterType = IntType, Required = False\<rparr>,
          \<lparr>Name = ''sqltype'', ParameterType = '''', Required = False\<rparr>,
          \<lparr>Name = ''database'', ParameterType = '''', Required = False\<rparr>,
          \<lparr>Name = ''port'', ParameterType = IntType, Required = False\<rparr>,
          \<lparr>Name = ''host'', ParameterType = '''', Required = False\<rparr>,
          \<lparr>Name = ''table'', ParameterType = '''', Required = False\<rparr>]\<rparr>),
      (JVMExceptionAction c, \<lparr>
        Flags = Some [
          \<lparr>Name = ''exception'', ParameterType = '''', Required = True\<rparr>,
          \<lparr>Name = ''exception-message'', ParameterType = '''', Required = False\<rparr>],
        Matcher = Some [
          \<lparr>Name = ''effect-count'', ParameterType = IntType, Required = False\<rparr>,
          \<lparr>Name = ''effect-percent'', ParameterType = IntType, Required = False\<rparr>,
          \<lparr>Name = ''sqltype'', ParameterType = '''', Required = False\<rparr>,
          \<lparr>Name = ''database'', ParameterType = '''', Required = False\<rparr>,
          \<lparr>Name = ''port'', ParameterType = IntType, Required = False\<rparr>,
          \<lparr>Name = ''host'', ParameterType = '''', Required = False\<rparr>,
          \<lparr>Name = ''table'', ParameterType = '''', Required = False\<rparr>]\<rparr>)]),
    (JEDIS c, [
      (JVMDelayAction c, \<lparr>
        Flags = Some [
          \<lparr>Name = ''time'', ParameterType = IntType, Required = True\<rparr>,
          \<lparr>Name = ''offset'', ParameterType = IntType, Required = False\<rparr>],
        Matcher = Some [
          \<lparr>Name = ''effect-count'', ParameterType = IntType, Required = False\<rparr>,
          \<lparr>Name = ''effect-percent'', ParameterType = IntType, Required = False\<rparr>,
          \<lparr>Name = ''cmd'', ParameterType = '''', Required = False\<rparr>,
          \<lparr>Name = ''key'', ParameterType = '''', Required = False\<rparr>]\<rparr>),
      (JVMExceptionAction c, \<lparr>
        Flags = Some [
          \<lparr>Name = ''exception'', ParameterType = '''', Required = True\<rparr>,
          \<lparr>Name = ''exception-message'', ParameterType = '''', Required = False\<rparr>],
        Matcher = Some [
          \<lparr>Name = ''effect-count'', ParameterType = IntType, Required = False\<rparr>,
          \<lparr>Name = ''effect-percent'', ParameterType = IntType, Required = False\<rparr>,
          \<lparr>Name = ''cmd'', ParameterType = '''', Required = False\<rparr>,
          \<lparr>Name = ''key'', ParameterType = '''', Required = False\<rparr>]\<rparr>)]),
    (HTTP c, [
      (JVMDelayAction c, \<lparr>
        Flags = Some [
          \<lparr>Name = ''time'', ParameterType = IntType, Required = True\<rparr>,
          \<lparr>Name = ''offset'', ParameterType = IntType, Required = False\<rparr>],
        Matcher = Some [
          \<lparr>Name = ''effect-count'', ParameterType = IntType, Required = False\<rparr>,
          \<lparr>Name = ''effect-percent'', ParameterType = IntType, Required = False\<rparr>,
          \<lparr>Name = ''httpclient4'', ParameterType = BoolType, Required = False\<rparr>,
          \<lparr>Name = ''rest'', ParameterType = BoolType, Required = False\<rparr>,
          \<lparr>Name = ''httpclient3'', ParameterType = BoolType, Required = False\<rparr>,
          \<lparr>Name = ''uri'', ParameterType = '''', Required = True\<rparr>]\<rparr>),
      (JVMExceptionAction c, \<lparr>
        Flags = Some [
          \<lparr>Name = ''exception'', ParameterType = '''', Required = True\<rparr>,
          \<lparr>Name = ''exception-message'', ParameterType = '''', Required = False\<rparr>],
        Matcher = Some [
          \<lparr>Name = ''effect-count'', ParameterType = IntType, Required = False\<rparr>,
          \<lparr>Name = ''effect-percent'', ParameterType = IntType, Required = False\<rparr>,
          \<lparr>Name = ''httpclient4'', ParameterType = BoolType, Required = False\<rparr>,
          \<lparr>Name = ''rest'', ParameterType = BoolType, Required = False\<rparr>,
          \<lparr>Name = ''httpclient3'', ParameterType = BoolType, Required = False\<rparr>,
          \<lparr>Name = ''uri'', ParameterType = '''', Required = True\<rparr>]\<rparr>)]),
    (ROCKETMQ c, [
      (JVMDelayAction c, \<lparr>
        Flags = Some [
          \<lparr>Name = ''time'', ParameterType = IntType, Required = True\<rparr>,
          \<lparr>Name = ''offset'', ParameterType = IntType, Required = False\<rparr>],
        Matcher = Some [
          \<lparr>Name = ''effect-count'', ParameterType = IntType, Required = False\<rparr>,
          \<lparr>Name = ''effect-percent'', ParameterType = IntType, Required = False\<rparr>,
          \<lparr>Name = ''producerGroup'', ParameterType = '''', Required = False\<rparr>,
          \<lparr>Name = ''topic'', ParameterType = '''', Required = False\<rparr>,
          \<lparr>Name = ''consumerGroup'', ParameterType = '''', Required = False\<rparr>]\<rparr>),
      (JVMExceptionAction c, \<lparr>
        Flags = Some [
          \<lparr>Name = ''exception'', ParameterType = '''', Required = True\<rparr>,
          \<lparr>Name = ''exception-message'', ParameterType = '''', Required = False\<rparr>],
        Matcher = Some [
          \<lparr>Name = ''effect-count'', ParameterType = IntType, Required = False\<rparr>,
          \<lparr>Name = ''effect-percent'', ParameterType = IntType, Required = False\<rparr>,
          \<lparr>Name = ''producerGroup'', ParameterType = '''', Required = False\<rparr>,
          \<lparr>Name = ''topic'', ParameterType = '''', Required = False\<rparr>,
          \<lparr>Name = ''consumerGroup'', ParameterType = '''', Required = False\<rparr>]\<rparr>)]),
    (TARS c, [
      (JVMDelayAction c, \<lparr>
        Flags = Some [
          \<lparr>Name = ''time'', ParameterType = IntType, Required = True\<rparr>,
          \<lparr>Name = ''offset'', ParameterType = IntType, Required = False\<rparr>],
        Matcher = Some [
          \<lparr>Name = ''effect-count'', ParameterType = IntType, Required = False\<rparr>,
          \<lparr>Name = ''effect-percent'', ParameterType = IntType, Required = False\<rparr>,
          \<lparr>Name = ''servant'', ParameterType = BoolType, Required = False\<rparr>,
          \<lparr>Name = ''functionname'', ParameterType = '''', Required = False\<rparr>,
          \<lparr>Name = ''client'', ParameterType = BoolType, Required = False\<rparr>,
          \<lparr>Name = ''servantname'', ParameterType = '''', Required = True\<rparr>]\<rparr>),
      (JVMExceptionAction c, \<lparr>
        Flags = Some [
          \<lparr>Name = ''exception'', ParameterType = '''', Required = True\<rparr>,
          \<lparr>Name = ''exception-message'', ParameterType = '''', Required = False\<rparr>],
        Matcher = Some [
          \<lparr>Name = ''effect-count'', ParameterType = IntType, Required = False\<rparr>,
          \<lparr>Name = ''effect-percent'', ParameterType = IntType, Required = False\<rparr>,
          \<lparr>Name = ''servant'', ParameterType = BoolType, Required = False\<rparr>,
          \<lparr>Name = ''functionname'', ParameterType = '''', Required = False\<rparr>,
          \<lparr>Name = ''client'', ParameterType = BoolType, Required = False\<rparr>,
          \<lparr>Name = ''servantname'', ParameterType = '''', Required = True\<rparr>]\<rparr>)]),
    (DUBBO c, [
      (JVMDelayAction c, \<lparr>
        Flags = Some [
          \<lparr>Name = ''time'', ParameterType = IntType, Required = True\<rparr>,
          \<lparr>Name = ''offset'', ParameterType = IntType, Required = False\<rparr>],
        Matcher = Some [
          \<lparr>Name = ''effect-count'', ParameterType = IntType, Required = False\<rparr>,
          \<lparr>Name = ''effect-percent'', ParameterType = IntType, Required = False\<rparr>,
          \<lparr>Name = ''appname'', ParameterType = '''', Required = False\<rparr>,
          \<lparr>Name = ''provider'', ParameterType = BoolType, Required = False\<rparr>,
          \<lparr>Name = ''service'', ParameterType = '''', Required = False\<rparr>,
          \<lparr>Name = ''version'', ParameterType = '''', Required = False\<rparr>,
          \<lparr>Name = ''consumer'', ParameterType = BoolType, Required = False\<rparr>,
          \<lparr>Name = ''group'', ParameterType = '''', Required = False\<rparr>]\<rparr>),
      (JVMExceptionAction c, \<lparr>
        Flags = Some [
          \<lparr>Name = ''exception'', ParameterType = '''', Required = True\<rparr>,
          \<lparr>Name = ''exception-message'', ParameterType = '''', Required = False\<rparr>],
        Matcher = Some [
          \<lparr>Name = ''effect-count'', ParameterType = IntType, Required = False\<rparr>,
          \<lparr>Name = ''effect-percent'', ParameterType = IntType, Required = False\<rparr>,
          \<lparr>Name = ''appname'', ParameterType = '''', Required = False\<rparr>,
          \<lparr>Name = ''provider'', ParameterType = BoolType, Required = False\<rparr>,
          \<lparr>Name = ''service'', ParameterType = '''', Required = False\<rparr>,
          \<lparr>Name = ''version'', ParameterType = '''', Required = False\<rparr>,
          \<lparr>Name = ''consumer'', ParameterType = BoolType, Required = False\<rparr>,
          \<lparr>Name = ''group'', ParameterType = '''', Required = False\<rparr>]\<rparr>),
      (JVMThreadPoolFullAction c, \<lparr>
        Flags = None,
        Matcher = Some [
          \<lparr>Name = ''effect-count'', ParameterType = IntType, Required = False\<rparr>,
          \<lparr>Name = ''effect-percent'', ParameterType = IntType, Required = False\<rparr>,
          \<lparr>Name = ''provider'', ParameterType = BoolType, Required = False\<rparr>]\<rparr>)]),
    (JVM c, [
      (JVMDelayAction c, \<lparr>
        Flags = Some [
          \<lparr>Name = ''time'', ParameterType = IntType, Required = True\<rparr>,
          \<lparr>Name = ''offset'', ParameterType = IntType, Required = False\<rparr>],
        Matcher = Some [
          \<lparr>Name = ''effect-count'', ParameterType = IntType, Required = False\<rparr>,
          \<lparr>Name = ''effect-percent'', ParameterType = IntType, Required = False\<rparr>,
          \<lparr>Name = ''classname'', ParameterType = '''', Required = True\<rparr>,
          \<lparr>Name = ''after'', ParameterType = BoolType, Required = False\<rparr>,
          \<lparr>Name = ''methodname'', ParameterType = '''', Required = True\<rparr>]\<rparr>),
      (JVMExceptionAction c, \<lparr>
        Flags = Some [
          \<lparr>Name = ''exception'', ParameterType = '''', Required = True\<rparr>,
          \<lparr>Name = ''exception-message'', ParameterType = '''', Required = False\<rparr>],
        Matcher = Some [
          \<lparr>Name = ''effect-count'', ParameterType = IntType, Required = False\<rparr>,
          \<lparr>Name = ''effect-percent'', ParameterType = IntType, Required = False\<rparr>,
          \<lparr>Name = ''classname'', ParameterType = '''', Required = True\<rparr>,
          \<lparr>Name = ''after'', ParameterType = BoolType, Required = False\<rparr>,
          \<lparr>Name = ''methodname'', ParameterType = '''', Required = True\<rparr>]\<rparr>),
      (JVMCodeCacheFillingAction c, \<lparr>
        Flags = None,
        Matcher = None\<rparr>),
      (JVMCpuFullloadAction c, \<lparr>
        Flags = Some [
          \<lparr>Name = ''cpu-count'', ParameterType = IntType, Required = False\<rparr>],
        Matcher = None\<rparr>),
      (JVMThrowDeclaredExceptionAction c, \<lparr>
        Flags = None,
        Matcher = Some [
          \<lparr>Name = ''effect-count'', ParameterType = IntType, Required = False\<rparr>,
          \<lparr>Name = ''effect-percent'', ParameterType = IntType, Required = False\<rparr>,
          \<lparr>Name = ''classname'', ParameterType = '''', Required = True\<rparr>,
          \<lparr>Name = ''after'', ParameterType = BoolType, Required = False\<rparr>,
          \<lparr>Name = ''methodname'', ParameterType = '''', Required = True\<rparr>]\<rparr>),
      (JVMReturnAction c, \<lparr>
        Flags = Some [
          \<lparr>Name = ''value'', ParameterType = '''', Required = True\<rparr>],
        Matcher = Some [
          \<lparr>Name = ''effect-count'', ParameterType = IntType, Required = False\<rparr>,
          \<lparr>Name = ''effect-percent'', ParameterType = IntType, Required = False\<rparr>,
          \<lparr>Name = ''classname'', ParameterType = '''', Required = True\<rparr>,
          \<lparr>Name = ''after'', ParameterType = BoolType, Required = False\<rparr>,
          \<lparr>Name = ''methodname'', ParameterType = '''', Required = True\<rparr>]\<rparr>),
      (JVMScriptAction c, \<lparr>
        Flags = Some [
          \<lparr>Name = ''script-file'', ParameterType = '''', Required = False\<rparr>,
          \<lparr>Name = ''script-type'', ParameterType = '''', Required = False\<rparr>,
          \<lparr>Name = ''script-content'', ParameterType = '''', Required = False\<rparr>,
          \<lparr>Name = ''script-name'', ParameterType = '''', Required = False\<rparr>],
        Matcher = Some [
          \<lparr>Name = ''effect-count'', ParameterType = IntType, Required = False\<rparr>,
          \<lparr>Name = ''effect-percent'', ParameterType = IntType, Required = False\<rparr>,
          \<lparr>Name = ''classname'', ParameterType = '''', Required = True\<rparr>,
          \<lparr>Name = ''after'', ParameterType = BoolType, Required = False\<rparr>,
          \<lparr>Name = ''methodname'', ParameterType = '''', Required = True\<rparr>]\<rparr>),
      (JVMOOMAction c, \<lparr>
        Flags = Some [
          \<lparr>Name = ''area'', ParameterType = '''', Required = True\<rparr>,
          \<lparr>Name = ''wild-mode'', ParameterType = BoolType, Required = False\<rparr>,
          \<lparr>Name = ''interval'', ParameterType = IntType, Required = False\<rparr>,
          \<lparr>Name = ''block'', ParameterType = IntType, Required = False\<rparr>],
        Matcher = None\<rparr>)]),
    (DRUID c, [
      (JVMConnectionPoolFullAction c, \<lparr>
        Flags = None,
        Matcher = Some [
          \<lparr>Name = ''effect-count'', ParameterType = IntType, Required = False\<rparr>,
          \<lparr>Name = ''effect-percent'', ParameterType = IntType, Required = False\<rparr>]\<rparr>)])]"

section \<open>The validation functions\<close>

text \<open>\<^verbatim>\<open>toString\<close>: the loop appends \<^verbatim>\<open>string(act)\<close> for every action.\<close>

definition toString :: "JVMChaosAction list \<Rightarrow> string list" where
  "toString actions = foldl (\<lambda>ret act. ret @ [act]) [] actions"

text \<open>
  The body of the loop of \<^verbatim>\<open>validateParameterRules\<close> for one rule: four
  \<^verbatim>\<open>if\<close> statements in sequence, each of which may append to \<open>allErrs\<close>.
  \<^verbatim>\<open>%s\<close> prints a \<^verbatim>\<open>*field.Path\<close> with its \<^verbatim>\<open>String\<close> method.
\<close>

definition validateParameterRule ::
  "JVMChaos \<Rightarrow> (string \<rightharpoonup> string) option \<Rightarrow> Path \<Rightarrow> Path \<Rightarrow> Path \<Rightarrow>
   field_Error list \<Rightarrow> ParameterRules \<Rightarrow> field_Error list" where
  "validateParameterRule inp parameters parent target action allErrs rule =
     (let innerField = Child parent (Name rule);
          lookup = (case parameters of None \<Rightarrow> None | Some m \<Rightarrow> m (Name rule));
          val = (case lookup of None \<Rightarrow> [] | Some v \<Rightarrow> v);
          exist = (lookup \<noteq> None);
          allErrs =
            (if Required rule \<and> \<not> exist
             then let errorMsg = ''with '' @ Path_String target @ '': '' @ Target (Spec inp) @ '', '' @
                                 Path_String action @ '': '' @ Action (Spec inp)
                  in allErrs @ [field_Required innerField errorMsg]
             else allErrs);
          allErrs =
            (if exist \<and> Required rule \<and> ParameterType rule = StringType
             then if length val = 0
                  then let errorMsg = Path_String innerField @ '':'' @ val @ '' cannot be empty''
                       in allErrs @ [field_Invalid innerField val errorMsg]
                  else allErrs
             else allErrs);
          allErrs =
            (if exist \<and> ParameterType rule = IntType
             then case strconv_Atoi val of
                    None \<Rightarrow>
                      let errorMsg = Path_String innerField @ '':'' @ val @ '' cannot parse as Int''
                      in allErrs @ [field_Invalid innerField val errorMsg]
                  | Some _ \<Rightarrow> allErrs
             else allErrs);
          allErrs =
            (if exist \<and> ParameterType rule = BoolType
             then case strconv_ParseBool val of
                    None \<Rightarrow>
                      let errorMsg = Path_String innerField @ '':'' @ val @ '' cannot parse as boolean''
                      in allErrs @ [field_Invalid innerField val errorMsg]
                  | Some _ \<Rightarrow> allErrs
             else allErrs)
      in allErrs)"

text \<open>\<^verbatim>\<open>validateParameterRules\<close>: the loop over the rules, from an empty list.\<close>

definition validateParameterRules ::
  "JVMChaos \<Rightarrow> (string \<rightharpoonup> string) option \<Rightarrow> ParameterRules list \<Rightarrow> Path \<Rightarrow> Path \<Rightarrow> Path \<Rightarrow>
   field_Error list" where
  "validateParameterRules inp parameters rules parent target action =
     foldl (validateParameterRule inp parameters parent target action) [] rules"

text \<open>
  \<^verbatim>\<open>for k := range actions\<close> visits every key of the map once, in an order the Go
  runtime chooses anew for each loop. \<open>rangeKeys actions ks\<close> says that \<open>ks\<close> is
  such an order.
\<close>

definition rangeKeys :: "(JVMChaosAction \<times> ActionParameterRules) list \<Rightarrow> JVMChaosAction list \<Rightarrow> bool" where
  "rangeKeys actions ks \<longleftrightarrow> distinct ks \<and> set ks = set (map fst actions)"

text \<open>
  \<^verbatim>\<open>validateJvmChaos\<close>. The parameter \<open>ks\<close> is the order in which the
  \<^verbatim>\<open>range\<close> loop of the unsupported-action branch visits the keys, \<open>quote\<close> is
  Go's string quoting, \<open>c\<close> gives the values of the target and action constants.
\<close>

definition validateJvmChaos ::
  "JVMChaosConsts \<Rightarrow> (string \<Rightarrow> string) \<Rightarrow> JVMChaosAction list \<Rightarrow> JVMChaos \<Rightarrow> Path \<Rightarrow>
   field_Error list" where
  "validateJvmChaos c quote ks inp spec =
     (let allErrs = [];
          targetField = Child spec ''target'';
          actionField = Child spec ''action'';
          flagsField = Child spec ''flags'';
          matcherField = Child spec ''matcher''
      in case map_of (JvmSpec c) (Target (Spec inp)) of
           Some actions \<Rightarrow>
             (case map_of actions (Action (Spec inp)) of
                Some actionPR \<Rightarrow>
                  (let allErrs =
                         (case Flags actionPR of
                            Some rules \<Rightarrow>
                              allErrs @ validateParameterRules inp (JVMChaosSpec.Flags (Spec inp)) rules
                                          flagsField targetField actionField
                          | None \<Rightarrow> allErrs);
                       allErrs =
                         (case Matcher actionPR of
                            Some rules \<Rightarrow>
                              allErrs @ validateParameterRules inp (Matchers (Spec inp)) rules
                                          matcherField targetField actionField
                          | None \<Rightarrow> allErrs)
                   in allErrs)
              | None \<Rightarrow>
                  (let supportActions = foldl (\<lambda>supportActions k. supportActions @ [k]) [] ks;
                       notSupportedError =
                         field_NotSupported quote actionField (Action (Spec inp)) (toString supportActions);
                       errorMsg = ''target: '' @ Target (Spec inp) @ '' does not match action: '' @
                                  Action (Spec inp) @ '', action detail error: '' @
                                  Error_Error quote notSupportedError
                   in allErrs @ [field_Invalid targetField (Target (Spec inp)) errorMsg]))
         | None \<Rightarrow> allErrs @ [field_Invalid targetField (Target (Spec inp)) ''unknown JVM chaos target''])"

text \<open>
  Modelled from the spec: the declarations of the target and action constants are not
  among the sources. This assignment spells the targets as the scenarios of the
  specification do (\<open>HTTP\<close>, \<open>DUBBO\<close>, \<open>JVM\<close>, \<open>DRUID\<close>) and the actions
  \<open>delay\<close>, \<open>exception\<close>, \<open>cpu-fullload\<close> and \<open>connection-pool-full\<close> likewise; the
  other actions are named after its list of fault kinds. It serves to run the model on
  concrete requests.
\<close>

definition specConsts :: JVMChaosConsts where
  "specConsts = \<lparr>
     SERVLET = ''SERVLET'', PSQL = ''PSQL'', MYSQL = ''MYSQL'', JEDIS = ''JEDIS'',
     HTTP = ''HTTP'', ROCKETMQ = ''ROCKETMQ'', TARS = ''TARS'', DUBBO = ''DUBBO'',
     JVM = ''JVM'', DRUID = ''DRUID'',
     JVMDelayAction = ''delay'',
     JVMExceptionAction = ''exception'',
     JVMThreadPoolFullAction = ''thread-pool-full'',
     JVMCodeCacheFillingAction = ''fill-code-cache'',
     JVMCpuFullloadAction = ''cpu-fullload'',
     JVMThrowDeclaredExceptionAction = ''throw-declared-exception'',
     JVMReturnAction = ''return-value'',
     JVMScriptAction = ''run-script'',
     JVMOOMAction = ''oom'',
     JVMConnectionPoolFullAction = ''connection-pool-full''\<rparr>"

text \<open>
  Go's quoting of a string of printable ASCII characters without a double quote or a
  backslash: the string between double quotes. It serves to run the model on concrete
  requests whose action names are of that kind.
\<close>

definition quoteAscii :: "string \<Rightarrow> string" where
  "quoteAscii s = [CHR 0x22] @ s @ [CHR 0x22]"


section \<open>Auxiliary lemmas\<close>

subsection \<open>The loops\<close>

text \<open>
  Each loop appends to its accumulator, so it is a concatenation over the list it runs
  through.
\<close>

lemma foldl_snoc: "foldl (\<lambda>acc k. acc @ [k]) acc ks = acc @ ks"
  by (induction ks arbitrary: acc) simp_all

lemma toString_id: "toString actions = actions"
  by (simp add: toString_def foldl_snoc)

lemma validateParameterRule_append:
  "validateParameterRule inp ps parent t a allErrs rule =
     allErrs @ validateParameterRule inp ps parent t a [] rule"
  by (auto simp: validateParameterRule_def Let_def split: option.splits)

lemma foldl_validateParameterRule:
  "foldl (validateParameterRule inp ps parent t a) allErrs rules =
     allErrs @ concat (map (validateParameterRule inp ps parent t a []) rules)"
proof (induction rules arbitrary: allErrs)
  case Nil
  show ?case by simp
next
  case (Cons r rules)
  show ?case
    using validateParameterRule_append [of inp ps parent t a allErrs r]
    by (simp add: Cons.IH)
qed

lemma validateParameterRules_concat:
  "validateParameterRules inp ps rules parent t a =
     concat (map (validateParameterRule inp ps parent t a []) rules)"
  by (simp add: validateParameterRules_def foldl_validateParameterRule)

lemma validateParameterRules_single:
  "validateParameterRules inp ps [rule] parent t a = validateParameterRule inp ps parent t a [] rule"
  by (simp add: validateParameterRules_def)

subsection \<open>The check of one rule\<close>

text \<open>
  The three type constants are pairwise different, so at most one of the typed
  branches runs. The check reads the request only through its target, its action and
  the value bound to the rule's name.
\<close>

lemma types_distinct:
  "IntType \<noteq> BoolType" "IntType \<noteq> StringType" "BoolType \<noteq> StringType"
  "BoolType \<noteq> IntType" "StringType \<noteq> IntType" "StringType \<noteq> BoolType"
  by (simp_all add: IntType_def BoolType_def StringType_def)

lemma validateParameterRule_length:
  "length (validateParameterRule inp ps parent t a [] rule) \<le> 1"
  by (auto simp: validateParameterRule_def Let_def types_distinct split: option.splits)

lemma validateParameterRule_field:
  "e \<in> set (validateParameterRule inp ps parent t a [] rule) \<Longrightarrow>
     ErrField e = Path_String (Child parent (Name rule))"
  by (auto simp: validateParameterRule_def Let_def field_Invalid_def field_Required_def
      split: option.splits if_splits)

lemma validateParameterRule_cong:
  assumes "Target (Spec inp) = Target (Spec inp')"
    and "Action (Spec inp) = Action (Spec inp')"
    and "(case ps of None \<Rightarrow> None | Some m \<Rightarrow> m (Name rule)) =
         (case ps' of None \<Rightarrow> None | Some m \<Rightarrow> m (Name rule))"
  shows "validateParameterRule inp ps parent t a allErrs rule =
         validateParameterRule inp' ps' parent t a allErrs rule"
  unfolding validateParameterRule_def assms(3) by (simp only: assms(1,2))

lemma validateParameterRule_cong_lookup:
  assumes "(case ps of None \<Rightarrow> None | Some m \<Rightarrow> m (Name rule)) =
           (case ps' of None \<Rightarrow> None | Some m \<Rightarrow> m (Name rule))"
  shows "validateParameterRule inp ps parent t a allErrs rule =
         validateParameterRule inp ps' parent t a allErrs rule"
  using assms by (simp add: validateParameterRule_def)

lemma validateParameterRules_cong:
  assumes "Target (Spec inp) = Target (Spec inp')"
    and "Action (Spec inp) = Action (Spec inp')"
    and "\<And>rule. rule \<in> set rules \<Longrightarrow>
           (case ps of None \<Rightarrow> None | Some m \<Rightarrow> m (Name rule)) =
           (case ps' of None \<Rightarrow> None | Some m \<Rightarrow> m (Name rule))"
  shows "validateParameterRules inp ps rules parent t a =
         validateParameterRules inp' ps' rules parent t a"
  unfolding validateParameterRules_concat
  by (intro arg_cong [where f = concat] map_cong refl validateParameterRule_cong assms)

lemma validateParameterRules_field:
  assumes "e \<in> set (validateParameterRules inp ps rules parent t a)"
  shows "\<exists>rule \<in> set rules. ErrField e = Path_String (Child parent (Name rule))"
  using assms unfolding validateParameterRules_concat
  by (auto dest: validateParameterRule_field)

lemma validateParameterRule_absent:
  assumes "(case ps of None \<Rightarrow> None | Some m \<Rightarrow> m (Name rule)) = None"
  shows "validateParameterRule inp ps parent t a [] rule =
           (if Required rule
            then [field_Required (Child parent (Name rule))
                    (''with '' @ Path_String t @ '': '' @ Target (Spec inp) @ '', '' @
                     Path_String a @ '': '' @ Action (Spec inp))]
            else [])"
  using assms by (simp add: validateParameterRule_def Let_def)

lemma validateParameterRule_no_type:
  assumes "ParameterType rule = []"
  shows "validateParameterRule inp ps parent t a [] rule =
           (if Required rule \<and> (case ps of None \<Rightarrow> None | Some m \<Rightarrow> m (Name rule)) = None
            then [field_Required (Child parent (Name rule))
                    (''with '' @ Path_String t @ '': '' @ Target (Spec inp) @ '', '' @
                     Path_String a @ '': '' @ Action (Spec inp))]
            else [])"
  using assms
  by (simp add: validateParameterRule_def Let_def IntType_def BoolType_def StringType_def)

subsection \<open>Parsing\<close>

lemma strconv_Atoi_abc: "strconv_Atoi ''abc'' = None"
  by (simp add: strconv_Atoi_def isDigit_def)

lemma strconv_Atoi_123: "strconv_Atoi ''123'' = Some 123"
  by (simp add: strconv_Atoi_def isDigit_def digitVal_def intSize_def)

lemma strconv_Atoi_100: "strconv_Atoi ''100'' = Some 100"
  by (simp add: strconv_Atoi_def isDigit_def digitVal_def intSize_def)

lemma strconv_ParseBool_maybe: "strconv_ParseBool ''maybe'' = None"
  by (simp add: strconv_ParseBool_def)

subsection \<open>Paths and joined strings\<close>

text \<open>
  Below a parent that is not \<^verbatim>\<open>nil\<close>, different names give different paths.
\<close>

lemma Path_elems_snoc:
  "Path_elems root (p @ [n]) =
     Path_elems root p @ (if n = [] then ''[]'' else (if root \<and> p = [] then [] else ''.'') @ n)"
  by (induction p arbitrary: root) auto

lemma Path_String_Child_inj:
  assumes "parent \<noteq> []"
    and "Path_String (Child parent n) = Path_String (Child parent m)"
  shows "n = m"
proof -
  let ?sfx = "\<lambda>n. if n = [] then ''[]'' else ''.'' @ n"
  have "Path_String (Child parent k) = Path_elems True parent @ ?sfx k" for k
    using assms(1) by (simp add: Path_String_def Child_def Path_elems_snoc)
  with assms(2) have "?sfx n = ?sfx m" by simp
  then show ?thesis by (auto split: if_splits)
qed

lemma Path_elems_append:
  "Path_elems root (p @ q) = Path_elems root p @ Path_elems (root \<and> p = []) q"
  by (induction p arbitrary: root) auto

lemma Path_String_flags_matcher:
  "Path_String (Child (Child spec ''flags'') k) \<noteq> Path_String (Child (Child spec ''matcher'') r)"
  by (cases "spec = []") (auto simp: Path_String_def Child_def Path_elems_append)

lemma Path_String_spec3 [simp]:
  "n \<noteq> [] \<Longrightarrow> k \<noteq> [] \<Longrightarrow> Path_String (Child (Child (NewPath ''spec'') k) n) = ''spec.'' @ k @ ''.'' @ n"
  by (simp add: Path_String_def Child_def NewPath_def)

lemma Path_String_spec2 [simp]:
  "k \<noteq> [] \<Longrightarrow> Path_String (Child (NewPath ''spec'') k) = ''spec.'' @ k"
  by (simp add: Path_String_def Child_def NewPath_def)

lemma sublist_strings_Join:
  "x \<in> set xs \<Longrightarrow> sublist x (strings_Join xs sep)"
proof (induction xs sep rule: strings_Join.induct)
  case (1 sep)
  then show ?case by simp
next
  case (2 y sep)
  then show ?case by simp
next
  case (3 y z xs sep)
  show ?case
  proof (cases "x = y")
    case True
    then show ?thesis by (simp add: sublist_append_rightI)
  next
    case False
    with 3 have "sublist x (strings_Join (z # xs) sep)" by simp
    then obtain ps ss where "strings_Join (z # xs) sep = ps @ x @ ss"
      by (auto simp: sublist_def)
    then have "strings_Join (y # z # xs) sep = (y @ sep @ ps) @ x @ ss" by simp
    then show ?thesis unfolding sublist_def by blast
  qed
qed

subsection \<open>Counting\<close>

lemma count_concat_le:
  assumes "\<And>r. length (g r) \<le> 1"
    and "\<And>r e. e \<in> set (g r) \<Longrightarrow> P e \<Longrightarrow> Q r"
  shows "length (filter P (concat (map g rules))) \<le> length (filter Q rules)"
proof (induction rules)
  case Nil
  show ?case by simp
next
  case (Cons r rules)
  have "length (filter P (g r)) \<le> (if Q r then 1 else 0)"
  proof (cases "Q r")
    case True
    have "length (filter P (g r)) \<le> length (g r)" by simp
    also have "\<dots> \<le> 1" by (rule assms(1))
    finally show ?thesis using True by simp
  next
    case False
    with assms(2) have "filter P (g r) = []" by (auto simp: filter_empty_conv)
    then show ?thesis by simp
  qed
  with Cons.IH show ?case by (cases "Q r") auto
qed

lemma count_distinct_le_1:
  "distinct (map g xs) \<Longrightarrow> length (filter (\<lambda>x. g x = y) xs) \<le> 1"
proof (induction xs)
  case Nil
  show ?case by simp
next
  case (Cons x xs)
  show ?case
  proof (cases "g x = y")
    case True
    from Cons.prems have "g x \<notin> g ` set xs" by simp
    with True have "\<forall>z \<in> set xs. g z \<noteq> y" by (metis imageI)
    then have "filter (\<lambda>x. g x = y) xs = []"
      by (simp add: filter_empty_conv)
    with True show ?thesis by simp
  next
    case False
    with Cons show ?thesis by simp
  qed
qed

subsection \<open>The catalog\<close>

text \<open>
  Lookups in \<open>JvmSpec\<close> under pairwise different keys. No rule of the catalog has
  the type \<^verbatim>\<open>StringType\<close>, and the names of every rule list are pairwise different.
\<close>

lemma keysDistinct_specConsts: "keysDistinct specConsts"
  by (simp add: keysDistinct_def specConsts_def)

lemma keysDistinct_rev:
  assumes "keysDistinct c"
  shows "distinct (rev [SERVLET c, PSQL c, MYSQL c, JEDIS c, HTTP c, ROCKETMQ c, TARS c, DUBBO c,
               JVM c, DRUID c])"
    and "distinct (rev [JVMDelayAction c, JVMExceptionAction c, JVMThreadPoolFullAction c])"
    and "distinct (rev [JVMDelayAction c, JVMExceptionAction c, JVMCodeCacheFillingAction c,
               JVMCpuFullloadAction c, JVMThrowDeclaredExceptionAction c, JVMReturnAction c,
               JVMScriptAction c, JVMOOMAction c])"
  using assms unfolding keysDistinct_def by (simp_all only: distinct_rev)

lemma JvmSpec_HTTP:
  assumes "keysDistinct c"
  shows "map_of (JvmSpec c) (HTTP c) = Some [
      (JVMDelayAction c, \<lparr>
        Flags = Some [
          \<lparr>Name = ''time'', ParameterType = IntType, Required = True\<rparr>,
          \<lparr>Name = ''offset'', ParameterType = IntType, Required = False\<rparr>],
        Matcher = Some [
          \<lparr>Name = ''effect-count'', ParameterType = IntType, Required = False\<rparr>,
          \<lparr>Name = ''effect-percent'', ParameterType = IntType, Required = False\<rparr>,
          \<lparr>Name = ''httpclient4'', ParameterType = BoolType, Required = False\<rparr>,
          \<lparr>Name = ''rest'', ParameterType = BoolType, Required = False\<rparr>,
          \<lparr>Name = ''httpclient3'', ParameterType = BoolType, Required = False\<rparr>,
          \<lparr>Name = ''uri'', ParameterType = '''', Required = True\<rparr>]\<rparr>),
      (JVMExceptionAction c, \<lparr>
        Flags = Some [
          \<lparr>Name = ''exception'', ParameterType = '''', Required = True\<rparr>,
          \<lparr>Name = ''exception-message'', ParameterType = '''', Required = False\<rparr>],
        Matcher = Some [
          \<lparr>Name = ''effect-count'', ParameterType = IntType, Required = False\<rparr>,
          \<lparr>Name = ''effect-percent'', ParameterType = IntType, Required = False\<rparr>,
          \<lparr>Name = ''httpclient4'', ParameterType = BoolType, Required = False\<rparr>,
          \<lparr>Name = ''rest'', ParameterType = BoolType, Required = False\<rparr>,
          \<lparr>Name = ''httpclient3'', ParameterType = BoolType, Required = False\<rparr>,
          \<lparr>Name = ''uri'', ParameterType = '''', Required = True\<rparr>]\<rparr>)]"
  using assms keysDistinct_rev [OF assms] by (simp add: JvmSpec_def keysDistinct_def)

lemma JvmSpec_DUBBO_exception:
  assumes "keysDistinct c"
  shows "\<exists>actions. map_of (JvmSpec c) (DUBBO c) = Some actions \<and>
     map_of actions (JVMExceptionAction c) = Some \<lparr>
        Flags = Some [
          \<lparr>Name = ''exception'', ParameterType = '''', Required = True\<rparr>,
          \<lparr>Name = ''exception-message'', ParameterType = '''', Required = False\<rparr>],
        Matcher = Some [
          \<lparr>Name = ''effect-count'', ParameterType = IntType, Required = False\<rparr>,
          \<lparr>Name = ''effect-percent'', ParameterType = IntType, Required = False\<rparr>,
          \<lparr>Name = ''appname'', ParameterType = '''', Required = False\<rparr>,
          \<lparr>Name = ''provider'', ParameterType = BoolType, Required = False\<rparr>,
          \<lparr>Name = ''service'', ParameterType = '''', Required = False\<rparr>,
          \<lparr>Name = ''version'', ParameterType = '''', Required = False\<rparr>,
          \<lparr>Name = ''consumer'', ParameterType = BoolType, Required = False\<rparr>,
          \<lparr>Name = ''group'', ParameterType = '''', Required = False\<rparr>]\<rparr>"
  using assms keysDistinct_rev [OF assms] by (simp add: JvmSpec_def keysDistinct_def)

lemma specConsts_sel:
  "HTTP specConsts = ''HTTP''" "DUBBO specConsts = ''DUBBO''" "DRUID specConsts = ''DRUID''"
  "JVM specConsts = ''JVM''"
  "JVMDelayAction specConsts = ''delay''" "JVMExceptionAction specConsts = ''exception''"
  "JVMCpuFullloadAction specConsts = ''cpu-fullload''"
  "JVMConnectionPoolFullAction specConsts = ''connection-pool-full''"
  by (simp_all add: specConsts_def)

lemma JvmSpec_specConsts_HTTP_keys:
  "\<exists>actions. map_of (JvmSpec specConsts) ''HTTP'' = Some actions \<and>
     map fst actions = [''delay'', ''exception'']"
  using JvmSpec_HTTP [OF keysDistinct_specConsts] by (simp add: specConsts_sel)

lemma JvmSpec_specConsts_HTTP_delay:
  "\<exists>actions. map_of (JvmSpec specConsts) ''HTTP'' = Some actions \<and>
     map_of actions ''delay'' = Some \<lparr>
        Flags = Some [
          \<lparr>Name = ''time'', ParameterType = IntType, Required = True\<rparr>,
          \<lparr>Name = ''offset'', ParameterType = IntType, Required = False\<rparr>],
        Matcher = Some [
          \<lparr>Name = ''effect-count'', ParameterType = IntType, Required = False\<rparr>,
          \<lparr>Name = ''effect-percent'', ParameterType = IntType, Required = False\<rparr>,
          \<lparr>Name = ''httpclient4'', ParameterType = BoolType, Required = False\<rparr>,
          \<lparr>Name = ''rest'', ParameterType = BoolType, Required = False\<rparr>,
          \<lparr>Name = ''httpclient3'', ParameterType = BoolType, Required = False\<rparr>,
          \<lparr>Name = ''uri'', ParameterType = '''', Required = True\<rparr>]\<rparr>"
  using JvmSpec_HTTP [OF keysDistinct_specConsts] by (simp add: specConsts_sel)

lemma JvmSpec_no_string_typed_rule:
  "list_all (\<lambda>(target, actions).
      list_all (\<lambda>(action, actionPR).
        list_all (\<lambda>rule. ParameterType rule \<noteq> StringType)
          ((case Flags actionPR of None \<Rightarrow> [] | Some rules \<Rightarrow> rules) @
           (case Matcher actionPR of None \<Rightarrow> [] | Some rules \<Rightarrow> rules))) actions)
     (JvmSpec c)"
  by (simp add: JvmSpec_def IntType_def BoolType_def StringType_def)

lemma JvmSpec_rule_names_distinct:
  "list_all (\<lambda>(target, actions).
      list_all (\<lambda>(action, actionPR).
        distinct (map Name (case Flags actionPR of None \<Rightarrow> [] | Some rules \<Rightarrow> rules)) \<and>
        distinct (map Name (case Matcher actionPR of None \<Rightarrow> [] | Some rules \<Rightarrow> rules))) actions)
     (JvmSpec c)"
  by (simp add: JvmSpec_def)

subsection \<open>The three branches of the validator\<close>

lemma validateJvmChaos_unknown_target:
  assumes "map_of (JvmSpec c) (Target (Spec inp)) = None"
  shows "validateJvmChaos c quote ks inp spec =
           [field_Invalid (Child spec ''target'') (Target (Spec inp)) ''unknown JVM chaos target'']"
  using assms by (simp add: validateJvmChaos_def)

lemma validateJvmChaos_unsupported:
  assumes "map_of (JvmSpec c) (Target (Spec inp)) = Some actions"
    and "map_of actions (Action (Spec inp)) = None"
  shows "validateJvmChaos c quote ks inp spec =
           [field_Invalid (Child spec ''target'') (Target (Spec inp))
              (''target: '' @ Target (Spec inp) @ '' does not match action: '' @ Action (Spec inp) @
               '', action detail error: '' @
               Error_Error quote (field_NotSupported quote (Child spec ''action'') (Action (Spec inp)) ks))]"
  using assms by (simp add: validateJvmChaos_def foldl_snoc toString_id Let_def)

lemma validateJvmChaos_resolved:
  assumes "map_of (JvmSpec c) (Target (Spec inp)) = Some actions"
    and "map_of actions (Action (Spec inp)) = Some actionPR"
  shows "validateJvmChaos c quote ks inp spec =
           (case Flags actionPR of
              None \<Rightarrow> []
            | Some rules \<Rightarrow>
                validateParameterRules inp (JVMChaosSpec.Flags (Spec inp)) rules
                  (Child spec ''flags'') (Child spec ''target'') (Child spec ''action'')) @
           (case Matcher actionPR of
              None \<Rightarrow> []
            | Some rules \<Rightarrow>
                validateParameterRules inp (Matchers (Spec inp)) rules
                  (Child spec ''matcher'') (Child spec ''target'') (Child spec ''action''))"
  using assms by (simp add: validateJvmChaos_def Let_def split: option.splits)

lemma no_violation_at_extra_key:
  assumes "map_of (JvmSpec c) (Target (Spec inp)) = Some actions"
    and "map_of actions (Action (Spec inp)) = Some actionPR"
    and "e \<in> set (validateJvmChaos c quote ks inp spec)"
  shows "(k \<notin> set (map Name (case Flags actionPR of None \<Rightarrow> [] | Some rules \<Rightarrow> rules)) \<longrightarrow>
            ErrField e \<noteq> Path_String (Child (Child spec ''flags'') k)) \<and>
         (k \<notin> set (map Name (case Matcher actionPR of None \<Rightarrow> [] | Some rules \<Rightarrow> rules)) \<longrightarrow>
            ErrField e \<noteq> Path_String (Child (Child spec ''matcher'') k))"
proof -
  let ?tf = "Child spec ''target''" and ?af = "Child spec ''action''"
  let ?frules = "case Flags actionPR of None \<Rightarrow> [] | Some rules \<Rightarrow> rules"
  let ?mrules = "case Matcher actionPR of None \<Rightarrow> [] | Some rules \<Rightarrow> rules"
  have "validateJvmChaos c quote ks inp spec =
          validateParameterRules inp (JVMChaosSpec.Flags (Spec inp)) ?frules (Child spec ''flags'') ?tf ?af @
          validateParameterRules inp (Matchers (Spec inp)) ?mrules (Child spec ''matcher'') ?tf ?af"
    unfolding validateJvmChaos_resolved [OF assms(1,2)]
    by (simp add: validateParameterRules_def split: option.splits)
  with assms(3) have
    "e \<in> set (validateParameterRules inp (JVMChaosSpec.Flags (Spec inp)) ?frules (Child spec ''flags'') ?tf ?af) \<or>
     e \<in> set (validateParameterRules inp (Matchers (Spec inp)) ?mrules (Child spec ''matcher'') ?tf ?af)"
    by simp
  then consider
    (flags) rule where "rule \<in> set ?frules"
      "ErrField e = Path_String (Child (Child spec ''flags'') (Name rule))"
  | (matcher) rule where "rule \<in> set ?mrules"
      "ErrField e = Path_String (Child (Child spec ''matcher'') (Name rule))"
    using validateParameterRules_field by blast
  then show ?thesis
  proof cases
    case flags
    have ne: "Child spec ''flags'' \<noteq> []" by (simp add: Child_def)
    from flags show ?thesis
      using Path_String_Child_inj [OF ne, of "Name rule" k]
        Path_String_flags_matcher [of spec "Name rule" k]
      by auto
  next
    case matcher
    have ne: "Child spec ''matcher'' \<noteq> []" by (simp add: Child_def)
    from matcher show ?thesis
      using Path_String_Child_inj [OF ne, of "Name rule" k]
        Path_String_flags_matcher [of spec k "Name rule"]
      by auto
  qed
qed


section \<open>Unknown target and unsupported action\<close>

text \<open>
  Claim C4. A target that is no key of \<open>JvmSpec\<close> gives exactly one violation,
  \<^verbatim>\<open>field.Invalid\<close> at the target field with the message \<open>unknown JVM chaos target\<close>.
  The right-hand side mentions neither the action nor the flags nor the matchers of the
  request: none of them is inspected.
\<close>

theorem unknown_target_single_violation:
  assumes "Target (Spec inp) \<notin> set (map fst (JvmSpec c))"
  shows "validateJvmChaos c quote ks inp spec =
           [field_Invalid (Child spec ''target'') (Target (Spec inp)) ''unknown JVM chaos target'']"
proof -
  from assms have "map_of (JvmSpec c) (Target (Spec inp)) = None"
    by (simp add: map_of_eq_None_iff)
  then show ?thesis
    by (simp add: validateJvmChaos_def)
qed

text \<open>
  The request \<open>UNKNOWN\<close>/\<open>delay\<close> with a malformed flag, as an instance of C4.
\<close>

theorem unknown_target_witness:
  "''UNKNOWN'' \<notin> set (map fst (JvmSpec specConsts)) \<and>
   validateJvmChaos specConsts quoteAscii []
     \<lparr>Spec = \<lparr>Target = ''UNKNOWN'', Action = ''delay'',
               JVMChaosSpec.Flags = Some [''time'' \<mapsto> ''abc''], Matchers = None\<rparr>\<rparr>
     (NewPath ''spec'') =
   [\<lparr>Type = ErrorTypeInvalid, ErrField = ''spec.target'', BadValue = ''UNKNOWN'',
     Detail = ''unknown JVM chaos target''\<rparr>]"
proof -
  let ?inp = "\<lparr>Spec = \<lparr>Target = ''UNKNOWN'', Action = ''delay'',
               JVMChaosSpec.Flags = Some [''time'' \<mapsto> ''abc''], Matchers = None\<rparr>\<rparr>"
  have h: "Target (Spec ?inp) \<notin> set (map fst (JvmSpec specConsts))"
    by (simp add: JvmSpec_def specConsts_def)
  from unknown_target_single_violation [OF h, of quoteAscii "[]" "NewPath ''spec''"] h
  show ?thesis
    by (simp add: field_Invalid_def)
qed

text \<open>
  Claim C3. For a target of the catalog and an action that is no key of its action map,
  the result is exactly one violation, addressed at the target field. Its message embeds
  the \<^verbatim>\<open>field.NotSupported\<close> error of the action field, and the quoted name of every
  action defined for the target occurs in it. No violation of a flag or a matcher is
  produced, whatever the request's flags and matchers are.
\<close>

theorem unknown_action_single_violation:
  assumes "map_of (JvmSpec c) (Target (Spec inp)) = Some actions"
    and "Action (Spec inp) \<notin> set (map fst actions)"
    and "rangeKeys actions ks"
  shows "\<exists>d. validateJvmChaos c quote ks inp spec =
               [field_Invalid (Child spec ''target'') (Target (Spec inp)) d] \<and>
             d = ''target: '' @ Target (Spec inp) @ '' does not match action: '' @ Action (Spec inp) @
                 '', action detail error: '' @
                 Error_Error quote (field_NotSupported quote (Child spec ''action'') (Action (Spec inp)) ks) \<and>
             (\<forall>a \<in> set (map fst actions). sublist (quote a) d)"
proof -
  let ?ns = "field_NotSupported quote (Child spec ''action'') (Action (Spec inp)) ks"
  let ?d = "''target: '' @ Target (Spec inp) @ '' does not match action: '' @ Action (Spec inp) @
            '', action detail error: '' @ Error_Error quote ?ns"
  from assms(2) have none: "map_of actions (Action (Spec inp)) = None"
    by (simp add: map_of_eq_None_iff)
  have res: "validateJvmChaos c quote ks inp spec =
               [field_Invalid (Child spec ''target'') (Target (Spec inp)) ?d]"
    using assms(1) none by (simp add: validateJvmChaos_def foldl_snoc toString_id Let_def)
  have listed: "sublist (quote a) ?d" if "a \<in> set (map fst actions)" for a
  proof -
    from that assms(3) have mem: "a \<in> set ks" by (simp add: rangeKeys_def)
    then have ne: "ks \<noteq> []" by auto
    from mem have "sublist (quote a) (strings_Join (map quote ks) '', '')"
      by (intro sublist_strings_Join) simp
    then obtain ps ss where j: "strings_Join (map quote ks) '', '' = ps @ quote a @ ss"
      by (auto simp: sublist_def)
    have "\<exists>pre. ?d = pre @ strings_Join (map quote ks) '', ''"
      using ne by (simp add: Error_Error_def ErrorBody_def field_NotSupported_def Let_def)
    then obtain pre where "?d = pre @ strings_Join (map quote ks) '', ''" ..
    with j have "?d = (pre @ ps) @ quote a @ ss" by simp
    then show ?thesis unfolding sublist_def by blast
  qed
  from res listed show ?thesis by blast
qed

text \<open>
  The request \<open>HTTP\<close>/\<open>return-value\<close>, as an instance of C3.
\<close>

theorem unknown_action_witness:
  "map_of (JvmSpec specConsts) ''HTTP'' = Some (the (map_of (JvmSpec specConsts) ''HTTP'')) \<and>
   ''return-value'' \<notin> set (map fst (the (map_of (JvmSpec specConsts) ''HTTP''))) \<and>
   rangeKeys (the (map_of (JvmSpec specConsts) ''HTTP'')) [''exception'', ''delay''] \<and>
   validateJvmChaos specConsts quoteAscii [''exception'', ''delay'']
     \<lparr>Spec = \<lparr>Target = ''HTTP'', Action = ''return-value'',
               JVMChaosSpec.Flags = None, Matchers = Some [''uri'' \<mapsto> '''']\<rparr>\<rparr>
     (NewPath ''spec'') =
   [\<lparr>Type = ErrorTypeInvalid, ErrField = ''spec.target'', BadValue = ''HTTP'',
     Detail = ''target: HTTP does not match action: return-value, action detail error: '' @
              ''spec.action: Unsupported value: '' @ quoteAscii ''return-value'' @
              '': supported values: '' @ quoteAscii ''exception'' @ '', '' @ quoteAscii ''delay''\<rparr>] \<and>
   sublist (quoteAscii ''delay'')
     (''target: HTTP does not match action: return-value, action detail error: '' @
      ''spec.action: Unsupported value: '' @ quoteAscii ''return-value'' @
      '': supported values: '' @ quoteAscii ''exception'' @ '', '' @ quoteAscii ''delay'') \<and>
   sublist (quoteAscii ''exception'')
     (''target: HTTP does not match action: return-value, action detail error: '' @
      ''spec.action: Unsupported value: '' @ quoteAscii ''return-value'' @
      '': supported values: '' @ quoteAscii ''exception'' @ '', '' @ quoteAscii ''delay'')"
proof -
  let ?inp = "\<lparr>Spec = \<lparr>Target = ''HTTP'', Action = ''return-value'',
               JVMChaosSpec.Flags = None, Matchers = Some [''uri'' \<mapsto> '''']\<rparr>\<rparr>"
  let ?acts = "the (map_of (JvmSpec specConsts) ''HTTP'')"
  let ?D = "''target: HTTP does not match action: return-value, action detail error: '' @
              ''spec.action: Unsupported value: '' @ quoteAscii ''return-value'' @
              '': supported values: '' @ quoteAscii ''exception'' @ '', '' @ quoteAscii ''delay''"
  from JvmSpec_specConsts_HTTP_keys obtain actions where
    a: "map_of (JvmSpec specConsts) ''HTTP'' = Some actions"
    and k: "map fst actions = [''delay'', ''exception'']" by (elim exE conjE)
  have acts: "?acts = actions" using a by simp
  have c1: "map_of (JvmSpec specConsts) ''HTTP'' = Some ?acts"
    using a by simp
  have c2: "''return-value'' \<notin> set (map fst ?acts)"
    unfolding acts k by simp
  have c3: "rangeKeys ?acts [''exception'', ''delay'']"
    unfolding acts rangeKeys_def k by auto
  have h1: "map_of (JvmSpec specConsts) (Target (Spec ?inp)) = Some ?acts"
    using c1 by simp
  have h2: "Action (Spec ?inp) \<notin> set (map fst ?acts)"
    using c2 by simp
  from unknown_action_single_violation [OF h1 h2 c3, of quoteAscii "NewPath ''spec''"]
  obtain d where
    r: "validateJvmChaos specConsts quoteAscii [''exception'', ''delay''] ?inp (NewPath ''spec'') =
          [field_Invalid (Child (NewPath ''spec'') ''target'') (Target (Spec ?inp)) d]"
    and d: "d = ''target: '' @ Target (Spec ?inp) @ '' does not match action: '' @ Action (Spec ?inp) @
                 '', action detail error: '' @
                 Error_Error quoteAscii (field_NotSupported quoteAscii (Child (NewPath ''spec'') ''action'')
                    (Action (Spec ?inp)) [''exception'', ''delay''])"
    and s: "\<forall>a \<in> set (map fst ?acts). sublist (quoteAscii a) d"
    by (elim exE conjE)
  have d': "d = ?D"
    unfolding d by (simp add: Error_Error_def ErrorBody_def field_NotSupported_def Let_def)
  have mem: "''delay'' \<in> set (map fst ?acts)" "''exception'' \<in> set (map fst ?acts)"
    unfolding acts k by simp_all
  have c5: "sublist (quoteAscii ''delay'') ?D"
    using s mem(1) unfolding d' by (rule bspec)
  have c6: "sublist (quoteAscii ''exception'') ?D"
    using s mem(2) unfolding d' by (rule bspec)
  have c4: "validateJvmChaos specConsts quoteAscii [''exception'', ''delay''] ?inp (NewPath ''spec'') =
     [\<lparr>Type = ErrorTypeInvalid, ErrField = ''spec.target'', BadValue = ''HTTP'', Detail = ?D\<rparr>]"
    unfolding r d' by (simp add: field_Invalid_def)
  from c1 c2 c3 c4 c5 c6 show ?thesis
    by (intro conjI)
qed

text \<open>
  Claim C2, as stated, fails: the message of the unsupported-action violation lists the
  keys of the action map in the order of a \<^verbatim>\<open>range\<close> loop, which Go does not fix. For
  \<open>HTTP\<close> with an undefined action, the two orders of the keys \<open>delay\<close> and
  \<open>exception\<close> give two different violation lists for the same request.
\<close>

theorem validate_not_repeatable_counterexample:
  "rangeKeys (the (map_of (JvmSpec specConsts) ''HTTP'')) [''delay'', ''exception''] \<and>
   rangeKeys (the (map_of (JvmSpec specConsts) ''HTTP'')) [''exception'', ''delay''] \<and>
   validateJvmChaos specConsts quoteAscii [''delay'', ''exception'']
     \<lparr>Spec = \<lparr>Target = ''HTTP'', Action = ''return-value'',
               JVMChaosSpec.Flags = None, Matchers = None\<rparr>\<rparr> (NewPath ''spec'') \<noteq>
   validateJvmChaos specConsts quoteAscii [''exception'', ''delay'']
     \<lparr>Spec = \<lparr>Target = ''HTTP'', Action = ''return-value'',
               JVMChaosSpec.Flags = None, Matchers = None\<rparr>\<rparr> (NewPath ''spec'')"
proof -
  let ?inp = "\<lparr>Spec = \<lparr>Target = ''HTTP'', Action = ''return-value'',
               JVMChaosSpec.Flags = None, Matchers = None\<rparr>\<rparr>"
  let ?acts = "the (map_of (JvmSpec specConsts) ''HTTP'')"
  from JvmSpec_specConsts_HTTP_keys obtain actions where
    a: "map_of (JvmSpec specConsts) ''HTTP'' = Some actions"
    and k: "map fst actions = [''delay'', ''exception'']" by (elim exE conjE)
  have acts: "?acts = actions" using a by simp
  have c1: "rangeKeys ?acts [''delay'', ''exception'']"
    unfolding acts rangeKeys_def k by auto
  have c2: "rangeKeys ?acts [''exception'', ''delay'']"
    unfolding acts rangeKeys_def k by auto
  have h1: "map_of (JvmSpec specConsts) (Target (Spec ?inp)) = Some actions" using a by simp
  have "Action (Spec ?inp) \<notin> set (map fst actions)" unfolding k by simp
  then have h2: "map_of actions (Action (Spec ?inp)) = None"
    by (simp add: map_of_eq_None_iff)
  have c3: "validateJvmChaos specConsts quoteAscii [''delay'', ''exception''] ?inp (NewPath ''spec'') \<noteq>
            validateJvmChaos specConsts quoteAscii [''exception'', ''delay''] ?inp (NewPath ''spec'')"
    unfolding validateJvmChaos_unsupported [OF h1 h2]
    by (simp add: field_Invalid_def Error_Error_def ErrorBody_def field_NotSupported_def
        quoteAscii_def Let_def)
  from c1 c2 c3 show ?thesis by (intro conjI)
qed

text \<open>
  Claim C2, amended. Two runs on the same request return the same violation list when
  the target is unknown or the action is defined for the target. When the target is
  known and the action is not defined for it, each run returns exactly one violation
  with the same type, field and rejected value; the two messages differ at most in the
  order in which the supported actions are listed (\<open>ks1\<close> is a permutation of
  \<open>ks2\<close>).
\<close>

theorem validate_repeatable_up_to_range_order:
  assumes "case map_of (JvmSpec c) (Target (Spec inp)) of
             None \<Rightarrow> True
           | Some actions \<Rightarrow> rangeKeys actions ks1 \<and> rangeKeys actions ks2"
  shows "case map_of (JvmSpec c) (Target (Spec inp)) of
           None \<Rightarrow> validateJvmChaos c quote ks1 inp spec = validateJvmChaos c quote ks2 inp spec
         | Some actions \<Rightarrow>
             if Action (Spec inp) \<in> set (map fst actions)
             then validateJvmChaos c quote ks1 inp spec = validateJvmChaos c quote ks2 inp spec
             else mset ks1 = mset ks2 \<and>
                  validateJvmChaos c quote ks1 inp spec =
                    [field_Invalid (Child spec ''target'') (Target (Spec inp))
                       (''target: '' @ Target (Spec inp) @ '' does not match action: '' @
                        Action (Spec inp) @ '', action detail error: '' @
                        Error_Error quote
                          (field_NotSupported quote (Child spec ''action'') (Action (Spec inp)) ks1))] \<and>
                  validateJvmChaos c quote ks2 inp spec =
                    [field_Invalid (Child spec ''target'') (Target (Spec inp))
                       (''target: '' @ Target (Spec inp) @ '' does not match action: '' @
                        Action (Spec inp) @ '', action detail error: '' @
                        Error_Error quote
                          (field_NotSupported quote (Child spec ''action'') (Action (Spec inp)) ks2))]"
proof (cases "map_of (JvmSpec c) (Target (Spec inp))")
  case None
  then show ?thesis by (simp add: validateJvmChaos_unknown_target)
next
  case (Some actions)
  show ?thesis
  proof (cases "Action (Spec inp) \<in> set (map fst actions)")
    case True
    then obtain actionPR where "map_of actions (Action (Spec inp)) = Some actionPR"
      by (cases "map_of actions (Action (Spec inp))") (simp_all add: map_of_eq_None_iff)
    with Some True show ?thesis by (simp add: validateJvmChaos_resolved)
  next
    case False
    then have none: "map_of actions (Action (Spec inp)) = None"
      by (simp add: map_of_eq_None_iff)
    from assms Some have "distinct ks1" "distinct ks2" "set ks1 = set ks2"
      by (simp_all add: rangeKeys_def)
    then have "mset ks1 = mset ks2"
      by (simp add: set_eq_iff_mset_eq_distinct)
    with Some False show ?thesis
      by (simp add: validateJvmChaos_unsupported [OF Some none])
  qed
qed

text \<open>
  The request \<open>HTTP\<close>/\<open>return-value\<close> under both orders of the keys, as an instance
  of the amended C2.
\<close>

theorem validate_repeatable_witness:
  "rangeKeys (the (map_of (JvmSpec specConsts) ''HTTP'')) [''delay'', ''exception''] \<and>
   rangeKeys (the (map_of (JvmSpec specConsts) ''HTTP'')) [''exception'', ''delay''] \<and>
   mset [''delay'', ''exception''] = mset [''exception'', ''delay''] \<and>
   validateJvmChaos specConsts quoteAscii [''delay'', ''exception'']
     \<lparr>Spec = \<lparr>Target = ''HTTP'', Action = ''return-value'',
               JVMChaosSpec.Flags = None, Matchers = None\<rparr>\<rparr> (NewPath ''spec'') =
     [\<lparr>Type = ErrorTypeInvalid, ErrField = ''spec.target'', BadValue = ''HTTP'',
       Detail = ''target: HTTP does not match action: return-value, action detail error: '' @
                ''spec.action: Unsupported value: '' @ quoteAscii ''return-value'' @
                '': supported values: '' @ quoteAscii ''delay'' @ '', '' @ quoteAscii ''exception''\<rparr>] \<and>
   validateJvmChaos specConsts quoteAscii [''exception'', ''delay'']
     \<lparr>Spec = \<lparr>Target = ''HTTP'', Action = ''return-value'',
               JVMChaosSpec.Flags = None, Matchers = None\<rparr>\<rparr> (NewPath ''spec'') =
     [\<lparr>Type = ErrorTypeInvalid, ErrField = ''spec.target'', BadValue = ''HTTP'',
       Detail = ''target: HTTP does not match action: return-value, action detail error: '' @
                ''spec.action: Unsupported value: '' @ quoteAscii ''return-value'' @
                '': supported values: '' @ quoteAscii ''exception'' @ '', '' @ quoteAscii ''delay''\<rparr>]"
proof -
  let ?inp = "\<lparr>Spec = \<lparr>Target = ''HTTP'', Action = ''return-value'',
               JVMChaosSpec.Flags = None, Matchers = None\<rparr>\<rparr>"
  let ?acts = "the (map_of (JvmSpec specConsts) ''HTTP'')"
  from JvmSpec_specConsts_HTTP_keys obtain actions where
    a: "map_of (JvmSpec specConsts) ''HTTP'' = Some actions"
    and k: "map fst actions = [''delay'', ''exception'']" by (elim exE conjE)
  have acts: "?acts = actions" using a by simp
  have c1: "rangeKeys ?acts [''delay'', ''exception'']"
    unfolding acts rangeKeys_def k by auto
  have c2: "rangeKeys ?acts [''exception'', ''delay'']"
    unfolding acts rangeKeys_def k by auto
  have h: "case map_of (JvmSpec specConsts) (Target (Spec ?inp)) of
             None \<Rightarrow> True
           | Some actions \<Rightarrow> rangeKeys actions [''delay'', ''exception''] \<and>
                             rangeKeys actions [''exception'', ''delay'']"
    using c1 c2 a by simp
  have n: "Action (Spec ?inp) \<notin> set (map fst actions)" unfolding k by simp
  from validate_repeatable_up_to_range_order [OF h, of quoteAscii "NewPath ''spec''"] a n
  have r: "mset [''delay'', ''exception''] = mset [''exception'', ''delay''] \<and>
      validateJvmChaos specConsts quoteAscii [''delay'', ''exception''] ?inp (NewPath ''spec'') =
        [field_Invalid (Child (NewPath ''spec'') ''target'') (Target (Spec ?inp))
           (''target: '' @ Target (Spec ?inp) @ '' does not match action: '' @
            Action (Spec ?inp) @ '', action detail error: '' @
            Error_Error quoteAscii
              (field_NotSupported quoteAscii (Child (NewPath ''spec'') ''action'') (Action (Spec ?inp))
                 [''delay'', ''exception'']))] \<and>
      validateJvmChaos specConsts quoteAscii [''exception'', ''delay''] ?inp (NewPath ''spec'') =
        [field_Invalid (Child (NewPath ''spec'') ''target'') (Target (Spec ?inp))
           (''target: '' @ Target (Spec ?inp) @ '' does not match action: '' @
            Action (Spec ?inp) @ '', action detail error: '' @
            Error_Error quoteAscii
              (field_NotSupported quoteAscii (Child (NewPath ''spec'') ''action'') (Action (Spec ?inp))
                 [''exception'', ''delay'']))]"
    by simp
  have c3: "mset [''delay'', ''exception''] = mset [''exception'', ''delay'']"
    using r by (rule conjunct1)
  have c4: "validateJvmChaos specConsts quoteAscii [''delay'', ''exception''] ?inp (NewPath ''spec'') =
     [\<lparr>Type = ErrorTypeInvalid, ErrField = ''spec.target'', BadValue = ''HTTP'',
       Detail = ''target: HTTP does not match action: return-value, action detail error: '' @
                ''spec.action: Unsupported value: '' @ quoteAscii ''return-value'' @
                '': supported values: '' @ quoteAscii ''delay'' @ '', '' @ quoteAscii ''exception''\<rparr>]"
    unfolding r [THEN conjunct2, THEN conjunct1]
    by (simp add: field_Invalid_def Error_Error_def ErrorBody_def field_NotSupported_def Let_def)
  have c5: "validateJvmChaos specConsts quoteAscii [''exception'', ''delay''] ?inp (NewPath ''spec'') =
     [\<lparr>Type = ErrorTypeInvalid, ErrField = ''spec.target'', BadValue = ''HTTP'',
       Detail = ''target: HTTP does not match action: return-value, action detail error: '' @
                ''spec.action: Unsupported value: '' @ quoteAscii ''return-value'' @
                '': supported values: '' @ quoteAscii ''exception'' @ '', '' @ quoteAscii ''delay''\<rparr>]"
    unfolding r [THEN conjunct2, THEN conjunct2]
    by (simp add: field_Invalid_def Error_Error_def ErrorBody_def field_NotSupported_def Let_def)
  from c1 c2 c3 c4 c5 show ?thesis by (intro conjI)
qed

section \<open>Resolved target and action\<close>

text \<open>
  Claim C5. When the target and the action resolve, the result is the violations of the
  flags followed by the violations of the matchers; each part is the concatenation, in
  the order of the rule list, of what every single rule of the list reports. No rule is
  skipped after an earlier one has reported a violation.
\<close>

theorem resolved_collects_all_violations:
  assumes "map_of (JvmSpec c) (Target (Spec inp)) = Some actions"
    and "map_of actions (Action (Spec inp)) = Some actionPR"
  shows "validateJvmChaos c quote ks inp spec =
           (case Flags actionPR of
              None \<Rightarrow> []
            | Some rules \<Rightarrow>
                concat (map (\<lambda>rule. validateParameterRules inp (JVMChaosSpec.Flags (Spec inp)) [rule]
                                      (Child spec ''flags'') (Child spec ''target'') (Child spec ''action''))
                            rules)) @
           (case Matcher actionPR of
              None \<Rightarrow> []
            | Some rules \<Rightarrow>
                concat (map (\<lambda>rule. validateParameterRules inp (Matchers (Spec inp)) [rule]
                                      (Child spec ''matcher'') (Child spec ''target'') (Child spec ''action''))
                            rules))"
  using assms
  by (simp add: validateJvmChaos_def validateParameterRules_concat Let_def split: option.splits)

text \<open>
  The request \<open>HTTP\<close>/\<open>delay\<close> with a malformed flag, a malformed matcher and the
  required matcher missing, as an instance of C5: three violations, flags first.
\<close>

theorem resolved_collects_all_violations_witness:
  "map_of (JvmSpec specConsts) ''HTTP'' = Some (the (map_of (JvmSpec specConsts) ''HTTP'')) \<and>
   map_of (the (map_of (JvmSpec specConsts) ''HTTP'')) ''delay'' =
     Some (the (map_of (the (map_of (JvmSpec specConsts) ''HTTP'')) ''delay'')) \<and>
   validateJvmChaos specConsts quoteAscii []
     \<lparr>Spec = \<lparr>Target = ''HTTP'', Action = ''delay'',
               JVMChaosSpec.Flags = Some [''time'' \<mapsto> ''abc''],
               Matchers = Some [''rest'' \<mapsto> ''maybe'']\<rparr>\<rparr> (NewPath ''spec'') =
   [\<lparr>Type = ErrorTypeInvalid, ErrField = ''spec.flags.time'', BadValue = ''abc'',
     Detail = ''spec.flags.time:abc cannot parse as Int''\<rparr>,
    \<lparr>Type = ErrorTypeInvalid, ErrField = ''spec.matcher.rest'', BadValue = ''maybe'',
     Detail = ''spec.matcher.rest:maybe cannot parse as boolean''\<rparr>,
    \<lparr>Type = ErrorTypeRequired, ErrField = ''spec.matcher.uri'', BadValue = [],
     Detail = ''with spec.target: HTTP, spec.action: delay''\<rparr>]"
proof -
  let ?inp = "\<lparr>Spec = \<lparr>Target = ''HTTP'', Action = ''delay'',
               JVMChaosSpec.Flags = Some [''time'' \<mapsto> ''abc''],
               Matchers = Some [''rest'' \<mapsto> ''maybe'']\<rparr>\<rparr>"
  let ?acts = "the (map_of (JvmSpec specConsts) ''HTTP'')"
  let ?pr = "the (map_of ?acts ''delay'')"
  from JvmSpec_specConsts_HTTP_delay obtain actions where
    a: "map_of (JvmSpec specConsts) ''HTTP'' = Some actions"
    and p: "map_of actions ''delay'' = Some \<lparr>
        Flags = Some [
          \<lparr>Name = ''time'', ParameterType = IntType, Required = True\<rparr>,
          \<lparr>Name = ''offset'', ParameterType = IntType, Required = False\<rparr>],
        Matcher = Some [
          \<lparr>Name = ''effect-count'', ParameterType = IntType, Required = False\<rparr>,
          \<lparr>Name = ''effect-percent'', ParameterType = IntType, Required = False\<rparr>,
          \<lparr>Name = ''httpclient4'', ParameterType = BoolType, Required = False\<rparr>,
          \<lparr>Name = ''rest'', ParameterType = BoolType, Required = False\<rparr>,
          \<lparr>Name = ''httpclient3'', ParameterType = BoolType, Required = False\<rparr>,
          \<lparr>Name = ''uri'', ParameterType = '''', Required = True\<rparr>]\<rparr>"
    by (elim exE conjE)
  have acts: "?acts = actions" using a by simp
  have c1: "map_of (JvmSpec specConsts) ''HTTP'' = Some ?acts" using a by simp
  have c2: "map_of ?acts ''delay'' = Some ?pr" unfolding acts using p by simp
  have h1: "map_of (JvmSpec specConsts) (Target (Spec ?inp)) = Some ?acts" using c1 by simp
  have h2: "map_of ?acts (Action (Spec ?inp)) = Some ?pr" using c2 by simp
  have c3: "validateJvmChaos specConsts quoteAscii [] ?inp (NewPath ''spec'') =
   [\<lparr>Type = ErrorTypeInvalid, ErrField = ''spec.flags.time'', BadValue = ''abc'',
     Detail = ''spec.flags.time:abc cannot parse as Int''\<rparr>,
    \<lparr>Type = ErrorTypeInvalid, ErrField = ''spec.matcher.rest'', BadValue = ''maybe'',
     Detail = ''spec.matcher.rest:maybe cannot parse as boolean''\<rparr>,
    \<lparr>Type = ErrorTypeRequired, ErrField = ''spec.matcher.uri'', BadValue = [],
     Detail = ''with spec.target: HTTP, spec.action: delay''\<rparr>]"
    unfolding resolved_collects_all_violations [OF h1 h2, of quoteAscii "[]" "NewPath ''spec''"]
    unfolding acts p
    by (simp add: validateParameterRules_single validateParameterRule_def Let_def
        strconv_Atoi_abc strconv_ParseBool_maybe types_distinct field_Invalid_def field_Required_def
        IntType_def BoolType_def StringType_def)
  from c1 c2 c3 show ?thesis by (intro conjI)
qed

text \<open>
  Claim C7. \<open>HTTP\<close>/\<open>delay\<close> with no flags and no matchers (each either \<^verbatim>\<open>nil\<close> or
  the empty map) gives exactly two violations: \<^verbatim>\<open>field.Required\<close> at
  \<open>spec.flags.time\<close> and \<^verbatim>\<open>field.Required\<close> at \<open>spec.matcher.uri\<close>. The check
  is the same for both maps: a required rule whose name is not bound in the map it is
  checked against adds exactly one \<^verbatim>\<open>field.Required\<close> at its path.
\<close>

theorem http_delay_empty_parameters:
  assumes "keysDistinct c"
    and "fl = None \<or> fl = Some Map.empty"
    and "ms = None \<or> ms = Some Map.empty"
  shows "validateJvmChaos c quote ks
           \<lparr>Spec = \<lparr>Target = HTTP c, Action = JVMDelayAction c,
                     JVMChaosSpec.Flags = fl, Matchers = ms\<rparr>\<rparr> (NewPath ''spec'') =
         [\<lparr>Type = ErrorTypeRequired, ErrField = ''spec.flags.time'', BadValue = [],
           Detail = ''with spec.target: '' @ HTTP c @ '', spec.action: '' @ JVMDelayAction c\<rparr>,
          \<lparr>Type = ErrorTypeRequired, ErrField = ''spec.matcher.uri'', BadValue = [],
           Detail = ''with spec.target: '' @ HTTP c @ '', spec.action: '' @ JVMDelayAction c\<rparr>] \<and>
         (Required rule \<and> (case ps of None \<Rightarrow> None | Some m \<Rightarrow> m (Name rule)) = None \<longrightarrow>
            validateParameterRule inp ps parent target action allErrs rule =
              allErrs @
              [\<lparr>Type = ErrorTypeRequired, ErrField = Path_String (Child parent (Name rule)),
                BadValue = [],
                Detail = ''with '' @ Path_String target @ '': '' @ Target (Spec inp) @ '', '' @
                         Path_String action @ '': '' @ Action (Spec inp)\<rparr>])"
proof -
  let ?inp = "\<lparr>Spec = \<lparr>Target = HTTP c, Action = JVMDelayAction c,
                     JVMChaosSpec.Flags = fl, Matchers = ms\<rparr>\<rparr>"
  let ?flags = "[\<lparr>Name = ''time'', ParameterType = IntType, Required = True\<rparr>,
          \<lparr>Name = ''offset'', ParameterType = IntType, Required = False\<rparr>]"
  let ?matcher = "[
          \<lparr>Name = ''effect-count'', ParameterType = IntType, Required = False\<rparr>,
          \<lparr>Name = ''effect-percent'', ParameterType = IntType, Required = False\<rparr>,
          \<lparr>Name = ''httpclient4'', ParameterType = BoolType, Required = False\<rparr>,
          \<lparr>Name = ''rest'', ParameterType = BoolType, Required = False\<rparr>,
          \<lparr>Name = ''httpclient3'', ParameterType = BoolType, Required = False\<rparr>,
          \<lparr>Name = ''uri'', ParameterType = '''', Required = True\<rparr>]"
  have fl: "(case fl of None \<Rightarrow> None | Some m \<Rightarrow> m n) = None" for n
    using assms(2) by auto
  have ms: "(case ms of None \<Rightarrow> None | Some m \<Rightarrow> m n) = None" for n
    using assms(3) by auto
  have "map_of (JvmSpec c) (Target (Spec ?inp)) = Some [
      (JVMDelayAction c, \<lparr>Flags = Some ?flags, Matcher = Some ?matcher\<rparr>),
      (JVMExceptionAction c, \<lparr>
        Flags = Some [
          \<lparr>Name = ''exception'', ParameterType = '''', Required = True\<rparr>,
          \<lparr>Name = ''exception-message'', ParameterType = '''', Required = False\<rparr>],
        Matcher = Some ?matcher\<rparr>)]"
    using JvmSpec_HTTP [OF assms(1)] by simp
  moreover have "map_of [
      (JVMDelayAction c, \<lparr>Flags = Some ?flags, Matcher = Some ?matcher\<rparr>),
      (JVMExceptionAction c, \<lparr>
        Flags = Some [
          \<lparr>Name = ''exception'', ParameterType = '''', Required = True\<rparr>,
          \<lparr>Name = ''exception-message'', ParameterType = '''', Required = False\<rparr>],
        Matcher = Some ?matcher\<rparr>)] (Action (Spec ?inp)) =
      Some \<lparr>Flags = Some ?flags, Matcher = Some ?matcher\<rparr>"
    by simp
  ultimately have "validateJvmChaos c quote ks ?inp (NewPath ''spec'') =
      validateParameterRules ?inp fl ?flags
        (Child (NewPath ''spec'') ''flags'') (Child (NewPath ''spec'') ''target'')
        (Child (NewPath ''spec'') ''action'') @
      validateParameterRules ?inp ms ?matcher
        (Child (NewPath ''spec'') ''matcher'') (Child (NewPath ''spec'') ''target'')
        (Child (NewPath ''spec'') ''action'')"
    by (simp add: validateJvmChaos_resolved)
  also have "\<dots> = [field_Required (Child (Child (NewPath ''spec'') ''flags'') ''time'')
                     (''with spec.target: '' @ HTTP c @ '', spec.action: '' @ JVMDelayAction c),
                  field_Required (Child (Child (NewPath ''spec'') ''matcher'') ''uri'')
                     (''with spec.target: '' @ HTTP c @ '', spec.action: '' @ JVMDelayAction c)]"
    by (simp add: validateParameterRules_concat validateParameterRule_absent fl ms)
  finally have scenario: "validateJvmChaos c quote ks ?inp (NewPath ''spec'') =
         [\<lparr>Type = ErrorTypeRequired, ErrField = ''spec.flags.time'', BadValue = [],
           Detail = ''with spec.target: '' @ HTTP c @ '', spec.action: '' @ JVMDelayAction c\<rparr>,
          \<lparr>Type = ErrorTypeRequired, ErrField = ''spec.matcher.uri'', BadValue = [],
           Detail = ''with spec.target: '' @ HTTP c @ '', spec.action: '' @ JVMDelayAction c\<rparr>]"
    by (simp add: field_Required_def)
  have missing: "validateParameterRule inp ps parent target action allErrs rule =
              allErrs @
              [\<lparr>Type = ErrorTypeRequired, ErrField = Path_String (Child parent (Name rule)),
                BadValue = [],
                Detail = ''with '' @ Path_String target @ '': '' @ Target (Spec inp) @ '', '' @
                         Path_String action @ '': '' @ Action (Spec inp)\<rparr>]"
    if "Required rule" and "(case ps of None \<Rightarrow> None | Some m \<Rightarrow> m (Name rule)) = None"
    using validateParameterRule_append [of inp ps parent target action allErrs rule]
      validateParameterRule_absent [OF that(2), of inp parent target action] that(1)
    by (simp add: field_Required_def)
  show ?thesis
  proof (intro conjI impI)
    show "validateJvmChaos c quote ks ?inp (NewPath ''spec'') =
         [\<lparr>Type = ErrorTypeRequired, ErrField = ''spec.flags.time'', BadValue = [],
           Detail = ''with spec.target: '' @ HTTP c @ '', spec.action: '' @ JVMDelayAction c\<rparr>,
          \<lparr>Type = ErrorTypeRequired, ErrField = ''spec.matcher.uri'', BadValue = [],
           Detail = ''with spec.target: '' @ HTTP c @ '', spec.action: '' @ JVMDelayAction c\<rparr>]"
      by (rule scenario)
  next
    assume "Required rule \<and> (case ps of None \<Rightarrow> None | Some m \<Rightarrow> m (Name rule)) = None"
    then show "validateParameterRule inp ps parent target action allErrs rule =
              allErrs @
              [\<lparr>Type = ErrorTypeRequired, ErrField = Path_String (Child parent (Name rule)),
                BadValue = [],
                Detail = ''with '' @ Path_String target @ '': '' @ Target (Spec inp) @ '', '' @
                         Path_String action @ '': '' @ Action (Spec inp)\<rparr>]"
      by (elim conjE) (rule missing)
  qed
qed

text \<open>
  C7 with the constants spelled as in the specification, and the required matcher rule
  \<open>uri\<close> checked against a \<^verbatim>\<open>nil\<close> map.
\<close>

theorem http_delay_empty_parameters_witness:
  "keysDistinct specConsts \<and>
   validateJvmChaos specConsts quoteAscii []
     \<lparr>Spec = \<lparr>Target = ''HTTP'', Action = ''delay'',
               JVMChaosSpec.Flags = None, Matchers = Some Map.empty\<rparr>\<rparr> (NewPath ''spec'') =
   [\<lparr>Type = ErrorTypeRequired, ErrField = ''spec.flags.time'', BadValue = [],
     Detail = ''with spec.target: HTTP, spec.action: delay''\<rparr>,
    \<lparr>Type = ErrorTypeRequired, ErrField = ''spec.matcher.uri'', BadValue = [],
     Detail = ''with spec.target: HTTP, spec.action: delay''\<rparr>] \<and>
   Required \<lparr>Name = ''uri'', ParameterType = '''', Required = True\<rparr> \<and>
   validateParameterRule
     \<lparr>Spec = \<lparr>Target = ''HTTP'', Action = ''delay'',
               JVMChaosSpec.Flags = Some [''time'' \<mapsto> ''100''], Matchers = None\<rparr>\<rparr>
     None [''spec'', ''matcher''] [''spec'', ''target''] [''spec'', ''action''] []
     \<lparr>Name = ''uri'', ParameterType = '''', Required = True\<rparr> =
   [\<lparr>Type = ErrorTypeRequired, ErrField = ''spec.matcher.uri'', BadValue = [],
     Detail = ''with spec.target: HTTP, spec.action: delay''\<rparr>]"
  using http_delay_empty_parameters [OF keysDistinct_specConsts, of None "Some Map.empty" quoteAscii "[]"
      "\<lparr>Name = ''uri'', ParameterType = '''', Required = True\<rparr>" None
      "\<lparr>Spec = \<lparr>Target = ''HTTP'', Action = ''delay'',
               JVMChaosSpec.Flags = Some [''time'' \<mapsto> ''100''], Matchers = None\<rparr>\<rparr>"
      "[''spec'', ''matcher'']" "[''spec'', ''target'']" "[''spec'', ''action'']" "[]"]
    keysDistinct_specConsts
  by (simp add: specConsts_sel Path_String_def Child_def)

text \<open>
  Claim C1 says that \<open>DUBBO\<close>/\<open>exception\<close> with the flag \<open>exception\<close> present
  but blank gives one empty-value violation. The code gives none: the rule
  \<open>exception\<close> is written without a \<^verbatim>\<open>ParameterType\<close>, so its type is the empty
  string and not \<^verbatim>\<open>StringType\<close>, and the empty-value branch is skipped. By
  \<open>JvmSpec_no_string_typed_rule\<close> this holds for every rule of the catalog.
\<close>

theorem dubbo_exception_blank_flag_accepted:
  assumes "keysDistinct c"
    and "ms = None \<or> ms = Some Map.empty"
  shows "validateJvmChaos c quote ks
           \<lparr>Spec = \<lparr>Target = DUBBO c, Action = JVMExceptionAction c,
                     JVMChaosSpec.Flags = Some [''exception'' \<mapsto> ''''], Matchers = ms\<rparr>\<rparr>
           (NewPath ''spec'') = []"
proof -
  let ?inp = "\<lparr>Spec = \<lparr>Target = DUBBO c, Action = JVMExceptionAction c,
                     JVMChaosSpec.Flags = Some [''exception'' \<mapsto> ''''], Matchers = ms\<rparr>\<rparr>"
  let ?pr = "\<lparr>
        Flags = Some [
          \<lparr>Name = ''exception'', ParameterType = '''', Required = True\<rparr>,
          \<lparr>Name = ''exception-message'', ParameterType = '''', Required = False\<rparr>],
        Matcher = Some [
          \<lparr>Name = ''effect-count'', ParameterType = IntType, Required = False\<rparr>,
          \<lparr>Name = ''effect-percent'', ParameterType = IntType, Required = False\<rparr>,
          \<lparr>Name = ''appname'', ParameterType = '''', Required = False\<rparr>,
          \<lparr>Name = ''provider'', ParameterType = BoolType, Required = False\<rparr>,
          \<lparr>Name = ''service'', ParameterType = '''', Required = False\<rparr>,
          \<lparr>Name = ''version'', ParameterType = '''', Required = False\<rparr>,
          \<lparr>Name = ''consumer'', ParameterType = BoolType, Required = False\<rparr>,
          \<lparr>Name = ''group'', ParameterType = '''', Required = False\<rparr>]\<rparr>"
  from JvmSpec_DUBBO_exception [OF assms(1)] obtain actions where
    a: "map_of (JvmSpec c) (DUBBO c) = Some actions"
    and p: "map_of actions (JVMExceptionAction c) = Some ?pr"
    by (elim exE conjE)
  have ms: "(case ms of None \<Rightarrow> None | Some m \<Rightarrow> m n) = None" for n
    using assms(2) by auto
  have h1: "map_of (JvmSpec c) (Target (Spec ?inp)) = Some actions" using a by simp
  have h2: "map_of actions (Action (Spec ?inp)) = Some ?pr" using p by simp
  have fl: "validateParameterRules ?inp (Some [''exception'' \<mapsto> ''''])
              [\<lparr>Name = ''exception'', ParameterType = '''', Required = True\<rparr>,
               \<lparr>Name = ''exception-message'', ParameterType = '''', Required = False\<rparr>]
              (Child (NewPath ''spec'') ''flags'') (Child (NewPath ''spec'') ''target'')
              (Child (NewPath ''spec'') ''action'') = []"
    by (simp add: validateParameterRules_concat validateParameterRule_no_type)
  have ma: "validateParameterRules ?inp ms
              [\<lparr>Name = ''effect-count'', ParameterType = IntType, Required = False\<rparr>,
               \<lparr>Name = ''effect-percent'', ParameterType = IntType, Required = False\<rparr>,
               \<lparr>Name = ''appname'', ParameterType = '''', Required = False\<rparr>,
               \<lparr>Name = ''provider'', ParameterType = BoolType, Required = False\<rparr>,
               \<lparr>Name = ''service'', ParameterType = '''', Required = False\<rparr>,
               \<lparr>Name = ''version'', ParameterType = '''', Required = False\<rparr>,
               \<lparr>Name = ''consumer'', ParameterType = BoolType, Required = False\<rparr>,
               \<lparr>Name = ''group'', ParameterType = '''', Required = False\<rparr>]
              (Child (NewPath ''spec'') ''matcher'') (Child (NewPath ''spec'') ''target'')
              (Child (NewPath ''spec'') ''action'') = []"
    by (simp add: validateParameterRules_concat validateParameterRule_absent ms)
  show ?thesis
    unfolding validateJvmChaos_resolved [OF h1 h2]
    by (simp add: fl ma)
qed

text \<open>
  The failing request of C1 with the constants spelled as in the specification.
\<close>

theorem dubbo_exception_blank_flag_witness:
  "keysDistinct specConsts \<and>
   validateJvmChaos specConsts quoteAscii []
     \<lparr>Spec = \<lparr>Target = ''DUBBO'', Action = ''exception'',
               JVMChaosSpec.Flags = Some [''exception'' \<mapsto> ''''], Matchers = None\<rparr>\<rparr>
     (NewPath ''spec'') = []"
  using dubbo_exception_blank_flag_accepted [OF keysDistinct_specConsts, of None quoteAscii "[]"]
    keysDistinct_specConsts
  by (simp add: specConsts_sel)

text \<open>
  Claim C9. For a resolved target and action, a key \<open>k\<close> of the flags map that no
  flag rule names has no effect on the result: the request with \<open>k\<close> bound to any value
  and the request without \<open>k\<close> give the same violations. The same holds for the
  matchers. Moreover every violation is addressed at the path of a declared rule, and
  none at the path of \<open>k\<close>.
\<close>

theorem extra_parameters_ignored:
  assumes "map_of (JvmSpec c) (Target (Spec inp)) = Some actions"
    and "map_of actions (Action (Spec inp)) = Some actionPR"
  shows "(k \<notin> set (map Name (case Flags actionPR of None \<Rightarrow> [] | Some rules \<Rightarrow> rules)) \<longrightarrow>
            validateJvmChaos c quote ks
              (inp\<lparr>Spec := (Spec inp)\<lparr>JVMChaosSpec.Flags := Some (m(k \<mapsto> v))\<rparr>\<rparr>) spec =
            validateJvmChaos c quote ks
              (inp\<lparr>Spec := (Spec inp)\<lparr>JVMChaosSpec.Flags := Some (m(k := None))\<rparr>\<rparr>) spec) \<and>
         (k \<notin> set (map Name (case Matcher actionPR of None \<Rightarrow> [] | Some rules \<Rightarrow> rules)) \<longrightarrow>
            validateJvmChaos c quote ks
              (inp\<lparr>Spec := (Spec inp)\<lparr>Matchers := Some (m(k \<mapsto> v))\<rparr>\<rparr>) spec =
            validateJvmChaos c quote ks
              (inp\<lparr>Spec := (Spec inp)\<lparr>Matchers := Some (m(k := None))\<rparr>\<rparr>) spec) \<and>
         (\<forall>e \<in> set (validateJvmChaos c quote ks inp spec).
            (\<exists>rule \<in> set (case Flags actionPR of None \<Rightarrow> [] | Some rules \<Rightarrow> rules).
               ErrField e = Path_String (Child (Child spec ''flags'') (Name rule))) \<or>
            (\<exists>rule \<in> set (case Matcher actionPR of None \<Rightarrow> [] | Some rules \<Rightarrow> rules).
               ErrField e = Path_String (Child (Child spec ''matcher'') (Name rule)))) \<and>
         (\<forall>e \<in> set (validateJvmChaos c quote ks inp spec).
            (k \<notin> set (map Name (case Flags actionPR of None \<Rightarrow> [] | Some rules \<Rightarrow> rules)) \<longrightarrow>
               ErrField e \<noteq> Path_String (Child (Child spec ''flags'') k)) \<and>
            (k \<notin> set (map Name (case Matcher actionPR of None \<Rightarrow> [] | Some rules \<Rightarrow> rules)) \<longrightarrow>
               ErrField e \<noteq> Path_String (Child (Child spec ''matcher'') k)))"
proof -
  have main: "(k \<notin> set (map Name (case Flags actionPR of None \<Rightarrow> [] | Some rules \<Rightarrow> rules)) \<longrightarrow>
            validateJvmChaos c quote ks
              (inp\<lparr>Spec := (Spec inp)\<lparr>JVMChaosSpec.Flags := Some (m(k \<mapsto> v))\<rparr>\<rparr>) spec =
            validateJvmChaos c quote ks
              (inp\<lparr>Spec := (Spec inp)\<lparr>JVMChaosSpec.Flags := Some (m(k := None))\<rparr>\<rparr>) spec) \<and>
         (k \<notin> set (map Name (case Matcher actionPR of None \<Rightarrow> [] | Some rules \<Rightarrow> rules)) \<longrightarrow>
            validateJvmChaos c quote ks
              (inp\<lparr>Spec := (Spec inp)\<lparr>Matchers := Some (m(k \<mapsto> v))\<rparr>\<rparr>) spec =
            validateJvmChaos c quote ks
              (inp\<lparr>Spec := (Spec inp)\<lparr>Matchers := Some (m(k := None))\<rparr>\<rparr>) spec) \<and>
         (\<forall>e \<in> set (validateJvmChaos c quote ks inp spec).
            (\<exists>rule \<in> set (case Flags actionPR of None \<Rightarrow> [] | Some rules \<Rightarrow> rules).
               ErrField e = Path_String (Child (Child spec ''flags'') (Name rule))) \<or>
            (\<exists>rule \<in> set (case Matcher actionPR of None \<Rightarrow> [] | Some rules \<Rightarrow> rules).
               ErrField e = Path_String (Child (Child spec ''matcher'') (Name rule))))"
  proof (intro conjI impI ballI)
    let ?tf = "Child spec ''target''" and ?af = "Child spec ''action''"
    {
      assume k: "k \<notin> set (map Name (case Flags actionPR of None \<Rightarrow> [] | Some rules \<Rightarrow> rules))"
      let ?i1 = "inp\<lparr>Spec := (Spec inp)\<lparr>JVMChaosSpec.Flags := Some (m(k \<mapsto> v))\<rparr>\<rparr>"
      let ?i2 = "inp\<lparr>Spec := (Spec inp)\<lparr>JVMChaosSpec.Flags := Some (m(k := None))\<rparr>\<rparr>"
      have fl: "validateParameterRules ?i1 (Some (m(k \<mapsto> v))) rules (Child spec ''flags'') ?tf ?af =
                validateParameterRules ?i2 (Some (m(k := None))) rules (Child spec ''flags'') ?tf ?af"
        if "Flags actionPR = Some rules" for rules
        using k that by (intro validateParameterRules_cong) auto
      have ma: "validateParameterRules ?i1 (Matchers (Spec inp)) rules (Child spec ''matcher'') ?tf ?af =
                validateParameterRules ?i2 (Matchers (Spec inp)) rules (Child spec ''matcher'') ?tf ?af"
        for rules
        by (intro validateParameterRules_cong) auto
      have r1: "map_of (JvmSpec c) (Target (Spec ?i1)) = Some actions"
        "map_of actions (Action (Spec ?i1)) = Some actionPR"
        "map_of (JvmSpec c) (Target (Spec ?i2)) = Some actions"
        "map_of actions (Action (Spec ?i2)) = Some actionPR"
        using assms by simp_all
      show "validateJvmChaos c quote ks ?i1 spec = validateJvmChaos c quote ks ?i2 spec"
        unfolding validateJvmChaos_resolved [OF r1(1,2)] validateJvmChaos_resolved [OF r1(3,4)]
        using fl ma by (simp split: option.splits)
    }
    {
      assume k: "k \<notin> set (map Name (case Matcher actionPR of None \<Rightarrow> [] | Some rules \<Rightarrow> rules))"
      let ?i1 = "inp\<lparr>Spec := (Spec inp)\<lparr>Matchers := Some (m(k \<mapsto> v))\<rparr>\<rparr>"
      let ?i2 = "inp\<lparr>Spec := (Spec inp)\<lparr>Matchers := Some (m(k := None))\<rparr>\<rparr>"
      have ma: "validateParameterRules ?i1 (Some (m(k \<mapsto> v))) rules (Child spec ''matcher'') ?tf ?af =
                validateParameterRules ?i2 (Some (m(k := None))) rules (Child spec ''matcher'') ?tf ?af"
        if "Matcher actionPR = Some rules" for rules
        using k that by (intro validateParameterRules_cong) auto
      have fl: "validateParameterRules ?i1 (JVMChaosSpec.Flags (Spec inp)) rules (Child spec ''flags'') ?tf ?af =
                validateParameterRules ?i2 (JVMChaosSpec.Flags (Spec inp)) rules (Child spec ''flags'') ?tf ?af"
        for rules
        by (intro validateParameterRules_cong) auto
      have r1: "map_of (JvmSpec c) (Target (Spec ?i1)) = Some actions"
        "map_of actions (Action (Spec ?i1)) = Some actionPR"
        "map_of (JvmSpec c) (Target (Spec ?i2)) = Some actions"
        "map_of actions (Action (Spec ?i2)) = Some actionPR"
        using assms by simp_all
      show "validateJvmChaos c quote ks ?i1 spec = validateJvmChaos c quote ks ?i2 spec"
        unfolding validateJvmChaos_resolved [OF r1(1,2)] validateJvmChaos_resolved [OF r1(3,4)]
        using fl ma by (simp split: option.splits)
    }
    {
      fix e assume e: "e \<in> set (validateJvmChaos c quote ks inp spec)"
      let ?frules = "case Flags actionPR of None \<Rightarrow> [] | Some rules \<Rightarrow> rules"
      let ?mrules = "case Matcher actionPR of None \<Rightarrow> [] | Some rules \<Rightarrow> rules"
      have "validateJvmChaos c quote ks inp spec =
              validateParameterRules inp (JVMChaosSpec.Flags (Spec inp)) ?frules (Child spec ''flags'') ?tf ?af @
              validateParameterRules inp (Matchers (Spec inp)) ?mrules (Child spec ''matcher'') ?tf ?af"
        unfolding validateJvmChaos_resolved [OF assms]
        by (simp add: validateParameterRules_def split: option.splits)
      with e have
        "e \<in> set (validateParameterRules inp (JVMChaosSpec.Flags (Spec inp)) ?frules (Child spec ''flags'') ?tf ?af) \<or>
         e \<in> set (validateParameterRules inp (Matchers (Spec inp)) ?mrules (Child spec ''matcher'') ?tf ?af)"
        by simp
      then show "(\<exists>rule \<in> set ?frules.
                 ErrField e = Path_String (Child (Child spec ''flags'') (Name rule))) \<or>
              (\<exists>rule \<in> set ?mrules.
                 ErrField e = Path_String (Child (Child spec ''matcher'') (Name rule)))"
        using validateParameterRules_field by blast
    }
  qed
  have at_key: "(\<forall>e \<in> set (validateJvmChaos c quote ks inp spec).
            (k \<notin> set (map Name (case Flags actionPR of None \<Rightarrow> [] | Some rules \<Rightarrow> rules)) \<longrightarrow>
               ErrField e \<noteq> Path_String (Child (Child spec ''flags'') k)) \<and>
            (k \<notin> set (map Name (case Matcher actionPR of None \<Rightarrow> [] | Some rules \<Rightarrow> rules)) \<longrightarrow>
               ErrField e \<noteq> Path_String (Child (Child spec ''matcher'') k)))"
    using no_violation_at_extra_key [OF assms] by blast
  from main at_key show ?thesis by blast
qed

text \<open>
  The request \<open>HTTP\<close>/\<open>delay\<close> with the required parameters and the additional flag
  \<open>bogus\<close>, as an instance of C9: no violation.
\<close>

theorem extra_parameters_ignored_witness:
  "map_of (JvmSpec specConsts) ''HTTP'' = Some (the (map_of (JvmSpec specConsts) ''HTTP'')) \<and>
   map_of (the (map_of (JvmSpec specConsts) ''HTTP'')) ''delay'' =
     Some (the (map_of (the (map_of (JvmSpec specConsts) ''HTTP'')) ''delay'')) \<and>
   ''bogus'' \<notin> set (map Name
      (case Flags (the (map_of (the (map_of (JvmSpec specConsts) ''HTTP'')) ''delay'')) of
         None \<Rightarrow> [] | Some rules \<Rightarrow> rules)) \<and>
   validateJvmChaos specConsts quoteAscii []
     \<lparr>Spec = \<lparr>Target = ''HTTP'', Action = ''delay'',
               JVMChaosSpec.Flags = Some [''time'' \<mapsto> ''100'', ''bogus'' \<mapsto> ''x''],
               Matchers = Some [''uri'' \<mapsto> ''/orders'']\<rparr>\<rparr> (NewPath ''spec'') =
   validateJvmChaos specConsts quoteAscii []
     \<lparr>Spec = \<lparr>Target = ''HTTP'', Action = ''delay'',
               JVMChaosSpec.Flags = Some ([''time'' \<mapsto> ''100''](''bogus'' := None)),
               Matchers = Some [''uri'' \<mapsto> ''/orders'']\<rparr>\<rparr> (NewPath ''spec'') \<and>
   validateJvmChaos specConsts quoteAscii []
     \<lparr>Spec = \<lparr>Target = ''HTTP'', Action = ''delay'',
               JVMChaosSpec.Flags = Some [''time'' \<mapsto> ''100'', ''bogus'' \<mapsto> ''x''],
               Matchers = Some [''uri'' \<mapsto> ''/orders'']\<rparr>\<rparr> (NewPath ''spec'') = []"
proof -
  let ?inp = "\<lparr>Spec = \<lparr>Target = ''HTTP'', Action = ''delay'',
               JVMChaosSpec.Flags = Some [''time'' \<mapsto> ''100''],
               Matchers = Some [''uri'' \<mapsto> ''/orders'']\<rparr>\<rparr>"
  let ?inp1 = "\<lparr>Spec = \<lparr>Target = ''HTTP'', Action = ''delay'',
               JVMChaosSpec.Flags = Some [''time'' \<mapsto> ''100'', ''bogus'' \<mapsto> ''x''],
               Matchers = Some [''uri'' \<mapsto> ''/orders'']\<rparr>\<rparr>"
  let ?inp2 = "\<lparr>Spec = \<lparr>Target = ''HTTP'', Action = ''delay'',
               JVMChaosSpec.Flags = Some ([''time'' \<mapsto> ''100''](''bogus'' := None)),
               Matchers = Some [''uri'' \<mapsto> ''/orders'']\<rparr>\<rparr>"
  let ?acts = "the (map_of (JvmSpec specConsts) ''HTTP'')"
  let ?pr = "the (map_of ?acts ''delay'')"
  from JvmSpec_specConsts_HTTP_delay obtain actions where
    a: "map_of (JvmSpec specConsts) ''HTTP'' = Some actions"
    and p: "map_of actions ''delay'' = Some \<lparr>
        Flags = Some [
          \<lparr>Name = ''time'', ParameterType = IntType, Required = True\<rparr>,
          \<lparr>Name = ''offset'', ParameterType = IntType, Required = False\<rparr>],
        Matcher = Some [
          \<lparr>Name = ''effect-count'', ParameterType = IntType, Required = False\<rparr>,
          \<lparr>Name = ''effect-percent'', ParameterType = IntType, Required = False\<rparr>,
          \<lparr>Name = ''httpclient4'', ParameterType = BoolType, Required = False\<rparr>,
          \<lparr>Name = ''rest'', ParameterType = BoolType, Required = False\<rparr>,
          \<lparr>Name = ''httpclient3'', ParameterType = BoolType, Required = False\<rparr>,
          \<lparr>Name = ''uri'', ParameterType = '''', Required = True\<rparr>]\<rparr>"
    by (elim exE conjE)
  have acts: "?acts = actions" using a by simp
  have c1: "map_of (JvmSpec specConsts) ''HTTP'' = Some ?acts" using a by simp
  have c2: "map_of ?acts ''delay'' = Some ?pr" unfolding acts using p by simp
  have c3: "''bogus'' \<notin> set (map Name (case Flags ?pr of None \<Rightarrow> [] | Some rules \<Rightarrow> rules))"
    unfolding acts p by simp
  have h1: "map_of (JvmSpec specConsts) (Target (Spec ?inp)) = Some ?acts" using c1 by simp
  have h2: "map_of ?acts (Action (Spec ?inp)) = Some ?pr" using c2 by simp
  have u1: "?inp\<lparr>Spec := (Spec ?inp)\<lparr>JVMChaosSpec.Flags := Some ([''time'' \<mapsto> ''100''](''bogus'' \<mapsto> ''x''))\<rparr>\<rparr> = ?inp1"
    by simp
  have u2: "?inp\<lparr>Spec := (Spec ?inp)\<lparr>JVMChaosSpec.Flags := Some ([''time'' \<mapsto> ''100''](''bogus'' := None))\<rparr>\<rparr> = ?inp2"
    by simp
  have c4: "validateJvmChaos specConsts quoteAscii [] ?inp1 (NewPath ''spec'') =
            validateJvmChaos specConsts quoteAscii [] ?inp2 (NewPath ''spec'')"
    using extra_parameters_ignored [OF h1 h2, of "''bogus''" quoteAscii "[]" "[''time'' \<mapsto> ''100'']"
        "''x''" "NewPath ''spec''"] c3
    unfolding u1 u2 by blast
  have g1: "map_of (JvmSpec specConsts) (Target (Spec ?inp1)) = Some actions" using a by simp
  have g2: "map_of actions (Action (Spec ?inp1)) = Some (the (map_of actions ''delay''))"
    using p by simp
  have c5: "validateJvmChaos specConsts quoteAscii [] ?inp1 (NewPath ''spec'') = []"
    unfolding validateJvmChaos_resolved [OF g1 g2] unfolding p
    by (simp add: validateParameterRules_concat validateParameterRule_def Let_def
        strconv_Atoi_100 IntType_def BoolType_def StringType_def)
  from c1 c2 c3 c4 c5 show ?thesis by (intro conjI)
qed

section \<open>The check of a single rule\<close>

text \<open>
  Claim C6. A required rule of type int or bool whose value is present and does not
  parse adds exactly one violation, \<^verbatim>\<open>field.Invalid\<close> with the parse message, and no
  \<^verbatim>\<open>field.Required\<close>.
\<close>

theorem malformed_required_value_type_mismatch_only:
  assumes "Required rule"
    and "parameters = Some m"
    and "m (Name rule) = Some v"
    and "(ParameterType rule = IntType \<and> strconv_Atoi v = None) \<or>
         (ParameterType rule = BoolType \<and> strconv_ParseBool v = None)"
  shows "validateParameterRule inp parameters parent target action allErrs rule =
           allErrs @
           [\<lparr>Type = ErrorTypeInvalid,
             ErrField = Path_String (Child parent (Name rule)),
             BadValue = v,
             Detail = Path_String (Child parent (Name rule)) @ '':'' @ v @
                      (if ParameterType rule = IntType then '' cannot parse as Int''
                       else '' cannot parse as boolean'')\<rparr>]"
  using assms
  by (auto simp: validateParameterRule_def field_Invalid_def types_distinct Let_def)

text \<open>
  The required int rule \<open>time\<close> with the value \<open>abc\<close>, as an instance of C6.
\<close>

theorem malformed_required_value_witness:
  "Required \<lparr>Name = ''time'', ParameterType = IntType, Required = True\<rparr> \<and>
   [''time'' \<mapsto> ''abc''] (Name \<lparr>Name = ''time'', ParameterType = IntType, Required = True\<rparr>) = Some ''abc'' \<and>
   ParameterType \<lparr>Name = ''time'', ParameterType = IntType, Required = True\<rparr> = IntType \<and>
   strconv_Atoi ''abc'' = None \<and>
   validateParameterRule
     \<lparr>Spec = \<lparr>Target = ''HTTP'', Action = ''delay'',
               JVMChaosSpec.Flags = Some [''time'' \<mapsto> ''abc''], Matchers = None\<rparr>\<rparr>
     (Some [''time'' \<mapsto> ''abc'']) [''spec'', ''flags''] [''spec'', ''target'']
     [''spec'', ''action''] [] \<lparr>Name = ''time'', ParameterType = IntType, Required = True\<rparr> =
   [\<lparr>Type = ErrorTypeInvalid, ErrField = ''spec.flags.time'', BadValue = ''abc'',
     Detail = ''spec.flags.time:abc cannot parse as Int''\<rparr>]"
  using malformed_required_value_type_mismatch_only
    [of "\<lparr>Name = ''time'', ParameterType = IntType, Required = True\<rparr>"
        "Some [''time'' \<mapsto> ''abc'']" "[''time'' \<mapsto> ''abc'']" "''abc''"
        "\<lparr>Spec = \<lparr>Target = ''HTTP'', Action = ''delay'',
               JVMChaosSpec.Flags = Some [''time'' \<mapsto> ''abc''], Matchers = None\<rparr>\<rparr>"
        "[''spec'', ''flags'']" "[''spec'', ''target'']" "[''spec'', ''action'']" "[]"]
    strconv_Atoi_abc
  by (simp add: Path_String_def Child_def)

text \<open>
  Claim C8. For a rule of type int, the present value \<open>123\<close> adds no violation and
  \<open>abc\<close> adds exactly one, the parse failure as int; for a rule of type bool, \<open>true\<close>
  and \<open>false\<close> add none and \<open>maybe\<close> adds exactly one, the parse failure as
  boolean. The check is \<^verbatim>\<open>strconv.Atoi\<close> or \<^verbatim>\<open>strconv.ParseBool\<close> on the string.
\<close>

theorem type_checks_parse_the_string:
  assumes "m (Name rule) = Some v"
  shows "(ParameterType rule = IntType \<and> v = ''123'' \<longrightarrow>
            validateParameterRule inp (Some m) parent target action allErrs rule = allErrs) \<and>
         (ParameterType rule = IntType \<and> v = ''abc'' \<longrightarrow>
            validateParameterRule inp (Some m) parent target action allErrs rule =
              allErrs @ [field_Invalid (Child parent (Name rule)) v
                           (Path_String (Child parent (Name rule)) @ '':abc cannot parse as Int'')]) \<and>
         (ParameterType rule = BoolType \<and> (v = ''true'' \<or> v = ''false'') \<longrightarrow>
            validateParameterRule inp (Some m) parent target action allErrs rule = allErrs) \<and>
         (ParameterType rule = BoolType \<and> v = ''maybe'' \<longrightarrow>
            validateParameterRule inp (Some m) parent target action allErrs rule =
              allErrs @ [field_Invalid (Child parent (Name rule)) v
                           (Path_String (Child parent (Name rule)) @ '':maybe cannot parse as boolean'')])"
proof -
  have bt: "strconv_ParseBool ''true'' = Some True" "strconv_ParseBool ''false'' = Some False"
    by (simp_all add: strconv_ParseBool_def)
  show ?thesis
    using assms
    by (auto simp: validateParameterRule_def types_distinct strconv_Atoi_123 strconv_Atoi_abc
        strconv_ParseBool_maybe bt Let_def)
qed

text \<open>
  The optional rules \<open>offset\<close> (int) and \<open>rest\<close> (bool), as instances of C8.
\<close>

theorem type_checks_witness:
  "validateParameterRule
     \<lparr>Spec = \<lparr>Target = ''HTTP'', Action = ''delay'',
               JVMChaosSpec.Flags = Some [''offset'' \<mapsto> ''123''], Matchers = None\<rparr>\<rparr>
     (Some [''offset'' \<mapsto> ''123'']) [''spec'', ''flags''] [''spec'', ''target'']
     [''spec'', ''action''] [] \<lparr>Name = ''offset'', ParameterType = IntType, Required = False\<rparr> = [] \<and>
   validateParameterRule
     \<lparr>Spec = \<lparr>Target = ''HTTP'', Action = ''delay'',
               JVMChaosSpec.Flags = Some [''offset'' \<mapsto> ''abc''], Matchers = None\<rparr>\<rparr>
     (Some [''offset'' \<mapsto> ''abc'']) [''spec'', ''flags''] [''spec'', ''target'']
     [''spec'', ''action''] [] \<lparr>Name = ''offset'', ParameterType = IntType, Required = False\<rparr> =
     [\<lparr>Type = ErrorTypeInvalid, ErrField = ''spec.flags.offset'', BadValue = ''abc'',
       Detail = ''spec.flags.offset:abc cannot parse as Int''\<rparr>] \<and>
   validateParameterRule
     \<lparr>Spec = \<lparr>Target = ''HTTP'', Action = ''delay'',
               JVMChaosSpec.Flags = None, Matchers = Some [''rest'' \<mapsto> ''true'']\<rparr>\<rparr>
     (Some [''rest'' \<mapsto> ''true'']) [''spec'', ''matcher''] [''spec'', ''target'']
     [''spec'', ''action''] [] \<lparr>Name = ''rest'', ParameterType = BoolType, Required = False\<rparr> = [] \<and>
   validateParameterRule
     \<lparr>Spec = \<lparr>Target = ''HTTP'', Action = ''delay'',
               JVMChaosSpec.Flags = None, Matchers = Some [''rest'' \<mapsto> ''false'']\<rparr>\<rparr>
     (Some [''rest'' \<mapsto> ''false'']) [''spec'', ''matcher''] [''spec'', ''target'']
     [''spec'', ''action''] [] \<lparr>Name = ''rest'', ParameterType = BoolType, Required = False\<rparr> = [] \<and>
   validateParameterRule
     \<lparr>Spec = \<lparr>Target = ''HTTP'', Action = ''delay'',
               JVMChaosSpec.Flags = None, Matchers = Some [''rest'' \<mapsto> ''maybe'']\<rparr>\<rparr>
     (Some [''rest'' \<mapsto> ''maybe'']) [''spec'', ''matcher''] [''spec'', ''target'']
     [''spec'', ''action''] [] \<lparr>Name = ''rest'', ParameterType = BoolType, Required = False\<rparr> =
     [\<lparr>Type = ErrorTypeInvalid, ErrField = ''spec.matcher.rest'', BadValue = ''maybe'',
       Detail = ''spec.matcher.rest:maybe cannot parse as boolean''\<rparr>]"
proof -
  let ?offset = "\<lparr>Name = ''offset'', ParameterType = IntType, Required = False\<rparr>"
  let ?rest = "\<lparr>Name = ''rest'', ParameterType = BoolType, Required = False\<rparr>"
  have t: "validateParameterRule inp (Some [k \<mapsto> v]) parent tg ac []
             \<lparr>Name = k, ParameterType = ty, Required = False\<rparr> = errs"
    if "(ty = IntType \<and> v = ''123'' \<and> errs = []) \<or>
        (ty = IntType \<and> v = ''abc'' \<and>
         errs = [field_Invalid (Child parent k) v (Path_String (Child parent k) @ '':abc cannot parse as Int'')]) \<or>
        (ty = BoolType \<and> (v = ''true'' \<or> v = ''false'') \<and> errs = []) \<or>
        (ty = BoolType \<and> v = ''maybe'' \<and>
         errs = [field_Invalid (Child parent k) v (Path_String (Child parent k) @ '':maybe cannot parse as boolean'')])"
    for inp k v parent tg ac ty errs
    using that
      type_checks_parse_the_string
        [where m = "[k \<mapsto> v]" and v = v and inp = inp and parent = parent
           and target = tg and action = ac and allErrs = "[]"
           and rule = "\<lparr>Name = k, ParameterType = ty, Required = False\<rparr>"]
    by (elim disjE conjE) simp_all
  show ?thesis
    by (intro conjI t) (simp_all add: Path_String_def Child_def field_Invalid_def)
qed

text \<open>
  Claim C10. One pass of the loop body appends at most one violation, addressed at the
  rule's field path. Hence the violations addressed at a path are at most as many as the
  rules addressed at it, and at most one when the names of the rule list are pairwise
  different (as they are in every rule list of the catalog, \<open>JvmSpec_rule_names_distinct\<close>)
  and the parent path is not \<^verbatim>\<open>nil\<close>. A \<^verbatim>\<open>nil\<close> map gives the same result as the
  empty map.
\<close>

theorem at_most_one_violation_per_rule:
  "(\<exists>errs. validateParameterRule inp parameters parent target action allErrs rule = allErrs @ errs \<and>
           length errs \<le> 1 \<and>
           (\<forall>e \<in> set errs. ErrField e = Path_String (Child parent (Name rule)))) \<and>
   length (filter (\<lambda>e. ErrField e = f)
             (validateParameterRules inp parameters rules parent target action)) \<le>
     length (filter (\<lambda>r. Path_String (Child parent (Name r)) = f) rules) \<and>
   (distinct (map Name rules) \<and> parent \<noteq> [] \<longrightarrow>
      length (filter (\<lambda>e. ErrField e = Path_String (Child parent (Name rule)))
                (validateParameterRules inp parameters rules parent target action)) \<le> 1) \<and>
   validateParameterRules inp None rules parent target action =
     validateParameterRules inp (Some Map.empty) rules parent target action"
proof -
  let ?g = "validateParameterRule inp parameters parent target action []"
  have one: "\<exists>errs. validateParameterRule inp parameters parent target action allErrs rule = allErrs @ errs \<and>
           length errs \<le> 1 \<and>
           (\<forall>e \<in> set errs. ErrField e = Path_String (Child parent (Name rule)))"
    using validateParameterRule_append [of inp parameters parent target action allErrs rule]
      validateParameterRule_length [of inp parameters parent target action rule]
      validateParameterRule_field [of _ inp parameters parent target action rule]
    by blast
  have count: "length (filter (\<lambda>e. ErrField e = f)
             (validateParameterRules inp parameters rules parent target action)) \<le>
     length (filter (\<lambda>r. Path_String (Child parent (Name r)) = f) rules)" for f
    unfolding validateParameterRules_concat
  proof (rule count_concat_le)
    show "length (validateParameterRule inp parameters parent target action [] r) \<le> 1" for r
      by (rule validateParameterRule_length)
    show "Path_String (Child parent (Name r)) = f"
      if "e \<in> set (validateParameterRule inp parameters parent target action [] r)"
        and "ErrField e = f" for r e
      using validateParameterRule_field [OF that(1)] that(2) by simp
  qed
  have uniq: "length (filter (\<lambda>e. ErrField e = Path_String (Child parent (Name rule)))
                (validateParameterRules inp parameters rules parent target action)) \<le> 1"
    if d: "distinct (map Name rules)" and p: "parent \<noteq> []"
  proof -
    have "filter (\<lambda>r. Path_String (Child parent (Name r)) = Path_String (Child parent (Name rule))) rules =
          filter (\<lambda>r. Name r = Name rule) rules"
      using Path_String_Child_inj [OF p] by (intro filter_cong refl) auto
    then have "length (filter (\<lambda>r. Path_String (Child parent (Name r)) =
                                  Path_String (Child parent (Name rule))) rules) \<le> 1"
      using count_distinct_le_1 [OF d, of "Name rule"] by simp
    with count [of "Path_String (Child parent (Name rule))"] show ?thesis
      by (rule order_trans)
  qed
  have nil: "validateParameterRules inp None rules parent target action =
     validateParameterRules inp (Some Map.empty) rules parent target action"
    unfolding validateParameterRules_concat
    by (intro arg_cong [where f = concat] map_cong refl validateParameterRule_cong_lookup) simp
  from one count uniq nil show ?thesis by blast
qed

text \<open>
  The flag rules of the delay action with two malformed values, as an instance of C10.
\<close>

theorem at_most_one_violation_witness:
  "distinct (map Name [\<lparr>Name = ''time'', ParameterType = IntType, Required = True\<rparr>,
                       \<lparr>Name = ''offset'', ParameterType = IntType, Required = False\<rparr>]) \<and>
   [''spec'', ''flags''] \<noteq> [] \<and>
   length (filter (\<lambda>e. ErrField e = ''spec.flags.time'')
      (validateParameterRules
         \<lparr>Spec = \<lparr>Target = ''HTTP'', Action = ''delay'',
               JVMChaosSpec.Flags = Some [''time'' \<mapsto> ''abc'', ''offset'' \<mapsto> ''x''], Matchers = None\<rparr>\<rparr>
         (Some [''time'' \<mapsto> ''abc'', ''offset'' \<mapsto> ''x''])
         [\<lparr>Name = ''time'', ParameterType = IntType, Required = True\<rparr>,
          \<lparr>Name = ''offset'', ParameterType = IntType, Required = False\<rparr>]
         [''spec'', ''flags''] [''spec'', ''target''] [''spec'', ''action''])) \<le> 1"
proof -
  let ?rules = "[\<lparr>Name = ''time'', ParameterType = IntType, Required = True\<rparr>,
                 \<lparr>Name = ''offset'', ParameterType = IntType, Required = False\<rparr>]"
  have c1: "distinct (map Name ?rules)" by simp
  have c2: "[''spec'', ''flags''] \<noteq> ([] :: Path)" by simp
  have p: "Path_String (Child [''spec'', ''flags''] (Name \<lparr>Name = ''time'', ParameterType = IntType, Required = True\<rparr>)) =
           ''spec.flags.time''"
    by (simp add: Path_String_def Child_def)
  from at_most_one_violation_per_rule
    [of "\<lparr>Spec = \<lparr>Target = ''HTTP'', Action = ''delay'',
               JVMChaosSpec.Flags = Some [''time'' \<mapsto> ''abc'', ''offset'' \<mapsto> ''x''], Matchers = None\<rparr>\<rparr>"
        "Some [''time'' \<mapsto> ''abc'', ''offset'' \<mapsto> ''x'']"
        "[''spec'', ''flags'']" "[''spec'', ''target'']" "[''spec'', ''action'']" "[]"
        "\<lparr>Name = ''time'', ParameterType = IntType, Required = True\<rparr>" "[]" ?rules]
    c1 c2
  have c3: "length (filter (\<lambda>e. ErrField e = ''spec.flags.time'')
      (validateParameterRules
         \<lparr>Spec = \<lparr>Target = ''HTTP'', Action = ''delay'',
               JVMChaosSpec.Flags = Some [''time'' \<mapsto> ''abc'', ''offset'' \<mapsto> ''x''], Matchers = None\<rparr>\<rparr>
         (Some [''time'' \<mapsto> ''abc'', ''offset'' \<mapsto> ''x''])
         ?rules [''spec'', ''flags''] [''spec'', ''target''] [''spec'', ''action''])) \<le> 1"
    unfolding p by blast
  from c1 c2 c3 show ?thesis by (intro conjI)
qed

end
